theory Spec2Isabelle
  imports Main
begin

section \<open>The store\<close>

text \<open>
  The memo routes of \<^verbatim>\<open>src/backend/src/routes/memo.ts\<close> talk to a relational store
  (\<^verbatim>\<open>c.env.DB\<close>) through SQL statements. The store is modelled as a record of tables,
  each table a list of rows in storage order. The selectors carry the alias the source's
  SQL gives the table: \<open>m\<close> for memo, \<open>u\<close> for user, \<open>r\<close> for resource, \<open>mr\<close> for
  memo_resource, \<open>t\<close> for tag and \<open>mt\<close> for memo_tag. Only the columns the routes read or
  write are kept. Timestamps are epoch seconds.

  Modelled from the spec: the schema of the store is not among the sources. The columns
  are the ones the SQL of the routes names; a memo has an owner reference, a visibility and
  a lifecycle status kept as the strings the routes compare them with; the association
  table is keyed by memo id and resource id and accepts a pair more than once (the spec
  lets a caller produce duplicate association rows).
\<close>

record memo_row =
  m_id :: int
  m_uid :: string
  m_creator_id :: int
  m_content :: string
  m_visibility :: string
  m_row_status :: string
  m_created_ts :: int
  m_updated_ts :: int

record user_row =
  u_id :: int
  u_uid :: string
  u_username :: string

record resource_row =
  r_id :: int
  r_uid :: string
  r_filename :: string
  r_type :: string
  r_size :: int
  r_external_link :: string
  r_created_ts :: int

record memo_resource_row =
  mr_memo_id :: int
  mr_resource_id :: int

record tag_row =
  t_id :: int
  t_name :: string

record memo_tag_row =
  mt_memo_id :: int
  mt_tag_id :: int

record db =
  tbl_memo :: "memo_row list"
  tbl_user :: "user_row list"
  tbl_resource :: "resource_row list"
  tbl_memo_resource :: "memo_resource_row list"
  tbl_tag :: "tag_row list"
  tbl_memo_tag :: "memo_tag_row list"

text \<open>\<^verbatim>\<open>.first()\<close> of a query: its first row, or null.\<close>

definition first :: "'a list \<Rightarrow> 'a option" where
  "first rows = (case rows of [] \<Rightarrow> None | row # _ \<Rightarrow> Some row)"

section \<open>Requests and responses\<close>

text \<open>
  \<^verbatim>\<open>c.get('user')\<close> is the authenticated principal (\<open>None\<close> for an anonymous call).
\<close>

record user_payload =
  sub :: string
  username :: string
  role :: string

text \<open>
  The JSON body of a create or update request. A field that is absent from the body is
  \<open>None\<close>. A structured resource reference carries a \<^verbatim>\<open>name\<close>, which may be missing
  (\<^verbatim>\<open>resource.name?\<close>).
\<close>

record resource_ref =
  ref_name :: "string option"

record memo_body =
  b_content :: "string option"
  b_visibility :: "string option"
  b_resourceIdList :: "int list option"
  b_resources :: "resource_ref list option"

text \<open>
  The query parameters of the list route; an absent parameter is \<open>None\<close>. \<^verbatim>\<open>creatorId\<close>
  is kept as the integer the store compares with \<^verbatim>\<open>m.creator_id\<close> (\<open>None\<close> also stands for
  the empty string, which the route's \<^verbatim>\<open>if (creatorId)\<close> treats as absent), \<^verbatim>\<open>limit\<close> and
  \<^verbatim>\<open>offset\<close> as the integers \<^verbatim>\<open>parseInt\<close> reads.
\<close>

record list_query =
  q_rowStatus :: "string option"
  q_creatorId :: "int option"
  q_tag :: "string option"
  q_visibility :: "string option"
  q_limit :: "int option"
  q_offset :: "int option"

text \<open>
  The error bodies of the routes, with their HTTP status. \<open>InternalServerError\<close> is the
  answer of a route's \<^verbatim>\<open>catch\<close> block. The only \<^verbatim>\<open>throw\<close> of the routes' own is the one
  after a memo insert that the store reports as failed; the statements of the store
  themselves are taken to return.
\<close>

datatype error =
  Unauthorized
  | ContentRequired
  | UserNotFound
  | MemoNotFound
  | Forbidden
  | InternalServerError

fun http_status :: "error \<Rightarrow> nat" where
  "http_status Unauthorized = 401"
| "http_status ContentRequired = 400"
| "http_status UserNotFound = 404"
| "http_status MemoNotFound = 404"
| "http_status Forbidden = 403"
| "http_status InternalServerError = 500"

text \<open>
  The view \<^verbatim>\<open>getMemoWithDetails\<close> assembles. In a resource view the ISO rendering of the
  creation time and the reference string \<^verbatim>\<open>memos/<id>\<close> are kept as the numbers they are
  printed from.
\<close>

record resource_view =
  rv_name :: string
  rv_uid :: string
  rv_createTime :: int
  rv_filename :: string
  rv_externalLink :: string
  rv_type :: string
  rv_size :: int
  rv_memo :: int

record memo_view =
  v_id :: int
  v_uid :: string
  v_creatorId :: int
  v_content :: string
  v_visibility :: string
  v_rowStatus :: string
  v_createdTs :: int
  v_updatedTs :: int
  v_resourceIdList :: "int list"
  v_resources :: "resource_view list"
  v_tags :: "string list"

text \<open>
  What a request takes from its surroundings: the clock (\<^verbatim>\<open>Math.floor(Date.now() / 1000)\<close>),
  the fresh \<^verbatim>\<open>uuidv4()\<close>, whether the store reports the memo insert as successful
  (\<^verbatim>\<open>memoResult.success\<close>), and the tag synchroniser.

  Modelled from the spec: \<^verbatim>\<open>updateMemoTags\<close> is imported from \<^verbatim>\<open>../utils\<close>, which is not
  among the sources. By its contract it is given the memo id, the owner id and the text,
  and rewrites only the tag table and the memo's tag links. The callers catch and log
  whatever it throws, so all they can observe of it is the two tables it leaves behind.
\<close>

record env =
  clock :: int
  uuidv4 :: string
  insert_success :: bool
  updateMemoTags :: "int \<Rightarrow> int \<Rightarrow> string \<Rightarrow> tag_row list \<times> memo_tag_row list
                     \<Rightarrow> tag_row list \<times> memo_tag_row list"

section \<open>Queries\<close>

text \<open>\<^verbatim>\<open>SELECT id FROM user WHERE uid = ?\<close>\<close>

definition select_user_by_uid :: "db \<Rightarrow> string \<Rightarrow> user_row option" where
  "select_user_by_uid d x = first (filter (\<lambda>u. u_uid u = x) (tbl_user d))"

definition getUserIdFromUid :: "db \<Rightarrow> string \<Rightarrow> int option" where
  "getUserIdFromUid d x =
     (case select_user_by_uid d x of Some user \<Rightarrow> Some (u_id user) | None \<Rightarrow> None)"

text \<open>\<^verbatim>\<open>SELECT * FROM memo WHERE id = ?\<close>\<close>

definition select_memo :: "db \<Rightarrow> int \<Rightarrow> memo_row option" where
  "select_memo d memoId = first (filter (\<lambda>m. m_id m = memoId) (tbl_memo d))"

text \<open>
  \<^verbatim>\<open>SELECT m.*, u.username as creator_username FROM memo m JOIN user u
  ON m.creator_id = u.id WHERE m.id = ?\<close>
\<close>

definition select_memo_join_user :: "db \<Rightarrow> int \<Rightarrow> (memo_row \<times> string) option" where
  "select_memo_join_user d memoId =
     first [(m, u_username u). m \<leftarrow> tbl_memo d, u \<leftarrow> tbl_user d,
              m_creator_id m = u_id u, m_id m = memoId]"

text \<open>\<^verbatim>\<open>SELECT id FROM resource WHERE uid = ?\<close>\<close>

definition select_resource_by_uid :: "db \<Rightarrow> string \<Rightarrow> resource_row option" where
  "select_resource_by_uid d x = first (filter (\<lambda>r. r_uid r = x) (tbl_resource d))"

definition resource_view_of :: "memo_row \<Rightarrow> resource_row \<Rightarrow> resource_view" where
  "resource_view_of memo r =
     \<lparr> rv_name = ''resources/'' @ r_uid r,
       rv_uid = r_uid r,
       rv_createTime = r_created_ts r,
       rv_filename = r_filename r,
       rv_externalLink = '''',
       rv_type = r_type r,
       rv_size = r_size r,
       rv_memo = m_id memo \<rparr>"

definition getMemoWithDetails :: "db \<Rightarrow> int \<Rightarrow> memo_view option" where
  "getMemoWithDetails d memoId =
     (case select_memo_join_user d memoId of
        None \<Rightarrow> None
      | Some (memo, creator_username) \<Rightarrow>
          (let resources = [r. r \<leftarrow> tbl_resource d, mr \<leftarrow> tbl_memo_resource d,
                              r_id r = mr_resource_id mr, mr_memo_id mr = memoId];
               resourceIdList = map r_id resources;
               resourceList = map (resource_view_of memo) resources;
               tagList = [t_name t. t \<leftarrow> tbl_tag d, mt \<leftarrow> tbl_memo_tag d,
                            t_id t = mt_tag_id mt, mt_memo_id mt = memoId]
           in Some \<lparr> v_id = m_id memo,
                     v_uid = m_uid memo,
                     v_creatorId = m_creator_id memo,
                     v_content = m_content memo,
                     v_visibility = m_visibility memo,
                     v_rowStatus = m_row_status memo,
                     v_createdTs = m_created_ts memo,
                     v_updatedTs = m_updated_ts memo,
                     v_resourceIdList = resourceIdList,
                     v_resources = resourceList,
                     v_tags = tagList \<rparr>))"

section \<open>Reading one memo\<close>

text \<open>\<^verbatim>\<open>memoRoutes.get('/:id')\<close>, given the id \<^verbatim>\<open>parseInt\<close> reads from the path.\<close>

definition get_memo :: "db \<Rightarrow> user_payload option \<Rightarrow> int \<Rightarrow> error + memo_view option" where
  "get_memo d userPayload memoId =
     (case select_memo_join_user d memoId of
        None \<Rightarrow> Inl MemoNotFound
      | Some (memo, creator_username) \<Rightarrow>
          if m_visibility memo = ''PRIVATE'' \<and>
             (case userPayload of
                None \<Rightarrow> True
              | Some up \<Rightarrow> Some (m_creator_id memo) \<noteq> getUserIdFromUid d (sub up))
          then Inl Forbidden
          else Inr (getMemoWithDetails d memoId))"

section \<open>Resolving resource references\<close>

text \<open>\<^verbatim>\<open>name.split('/').pop()\<close>: what follows the last slash of the name.\<close>

definition last_segment :: "string \<Rightarrow> string" where
  "last_segment s = rev (takeWhile (\<lambda>c. c \<noteq> CHR ''/'') (rev s))"

definition resourceUid_of :: "resource_ref \<Rightarrow> string option" where
  "resourceUid_of resource =
     (case ref_name resource of None \<Rightarrow> None | Some n \<Rightarrow> Some (last_segment n))"

text \<open>
  The loop over \<^verbatim>\<open>resources\<close> that pushes the id of every reference found in the store
  onto \<^verbatim>\<open>resourceIds\<close>. An undefined or empty uid is skipped, a uid without a row is
  logged and skipped.
\<close>

fun convert_resources :: "db \<Rightarrow> resource_ref list \<Rightarrow> int list \<Rightarrow> int list" where
  "convert_resources d [] resourceIds = resourceIds"
| "convert_resources d (resource # rest) resourceIds =
     convert_resources d rest
       (case resourceUid_of resource of
          None \<Rightarrow> resourceIds
        | Some resourceUid \<Rightarrow>
            if resourceUid = [] then resourceIds
            else (case select_resource_by_uid d resourceUid of
                    Some dbResource \<Rightarrow> resourceIds @ [r_id dbResource]
                  | None \<Rightarrow> resourceIds))"

text \<open>The loop of \<^verbatim>\<open>INSERT INTO memo_resource (memo_id, resource_id) VALUES (?, ?)\<close>.\<close>

fun insert_memo_resources :: "db \<Rightarrow> int \<Rightarrow> int list \<Rightarrow> db" where
  "insert_memo_resources d memoId [] = d"
| "insert_memo_resources d memoId (resourceId # rest) =
     insert_memo_resources
       (d\<lparr>tbl_memo_resource :=
            tbl_memo_resource d @ [\<lparr>mr_memo_id = memoId, mr_resource_id = resourceId\<rparr>]\<rparr>)
       memoId rest"

text \<open>\<^verbatim>\<open>DELETE FROM memo_resource WHERE memo_id = ?\<close>\<close>

definition delete_memo_resources :: "db \<Rightarrow> int \<Rightarrow> db" where
  "delete_memo_resources d memoId =
     d\<lparr>tbl_memo_resource := filter (\<lambda>mr. mr_memo_id mr \<noteq> memoId) (tbl_memo_resource d)\<rparr>"

text \<open>The call of \<^verbatim>\<open>updateMemoTags\<close> inside its \<^verbatim>\<open>try\<close>.\<close>

definition run_updateMemoTags :: "env \<Rightarrow> db \<Rightarrow> int \<Rightarrow> int \<Rightarrow> string \<Rightarrow> db" where
  "run_updateMemoTags e d memoId userId content =
     (case updateMemoTags e memoId userId content (tbl_tag d, tbl_memo_tag d) of
        (tags, links) \<Rightarrow> d\<lparr>tbl_tag := tags, tbl_memo_tag := links\<rparr>)"

section \<open>Creating a memo\<close>

text \<open>
  The id the store gives an inserted memo row (\<^verbatim>\<open>memoResult.meta.last_row_id\<close>).
  Modelled from the spec: the insert returns a generated numeric id; it is taken to be one
  more than the largest id of the table (and 1 for an empty table).
\<close>

definition last_row_id :: "memo_row list \<Rightarrow> int" where
  "last_row_id rows = fold max (map m_id rows) 0 + 1"

text \<open>\<^verbatim>\<open>memoRoutes.post('/')\<close>: the response and the store it leaves.\<close>

definition post_memo ::
  "env \<Rightarrow> db \<Rightarrow> user_payload option \<Rightarrow> memo_body \<Rightarrow> (error + memo_view option) \<times> db" where
  "post_memo e d userPayload body =
     (case userPayload of
        None \<Rightarrow> (Inl Unauthorized, d)
      | Some up \<Rightarrow>
          (let visibility = (case b_visibility body of None \<Rightarrow> ''PRIVATE'' | Some v \<Rightarrow> v);
               resourceIdList = (case b_resourceIdList body of None \<Rightarrow> [] | Some l \<Rightarrow> l);
               resources = (case b_resources body of None \<Rightarrow> [] | Some l \<Rightarrow> l)
           in case b_content body of
                None \<Rightarrow> (Inl ContentRequired, d)
              | Some content \<Rightarrow>
                  if content = [] then (Inl ContentRequired, d)
                  else
                    (case select_user_by_uid d (sub up) of
                       None \<Rightarrow> (Inl UserNotFound, d)
                     | Some user \<Rightarrow>
                         if \<not> insert_success e then (Inl InternalServerError, d)
                         else
                           (let memoId = last_row_id (tbl_memo d);
                                d1 = d\<lparr>tbl_memo := tbl_memo d @
                                       [\<lparr> m_id = memoId,
                                          m_uid = uuidv4 e,
                                          m_creator_id = u_id user,
                                          m_content = content,
                                          m_visibility = visibility,
                                          m_row_status = ''NORMAL'',
                                          m_created_ts = clock e,
                                          m_updated_ts = clock e \<rparr>]\<rparr>;
                                finalResourceIdList =
                                  (if length resources > 0 then convert_resources d1 resources []
                                   else resourceIdList);
                                d2 = insert_memo_resources d1 memoId finalResourceIdList;
                                d3 = run_updateMemoTags e d2 memoId (u_id user) content
                            in (Inr (getMemoWithDetails d3 memoId), d3)))))"

section \<open>Listing memos\<close>

text \<open>\<^verbatim>\<open>x || dflt\<close> on a query parameter: null and the empty string are falsy.\<close>

definition or_else :: "string option \<Rightarrow> string \<Rightarrow> string" where
  "or_else x dflt = (case x of None \<Rightarrow> dflt | Some s \<Rightarrow> if s = [] then dflt else s)"

definition truthy :: "string option \<Rightarrow> bool" where
  "truthy x = (case x of None \<Rightarrow> False | Some s \<Rightarrow> s \<noteq> [])"

text \<open>
  \<^verbatim>\<open>EXISTS (SELECT 1 FROM memo_tag mt JOIN tag t ON mt.tag_id = t.id
  WHERE mt.memo_id = m.id AND t.name = ?)\<close>
\<close>

definition exists_tag :: "db \<Rightarrow> int \<Rightarrow> string \<Rightarrow> bool" where
  "exists_tag d memoId tag =
     ([(). mt \<leftarrow> tbl_memo_tag d, t \<leftarrow> tbl_tag d,
            mt_tag_id mt = t_id t, mt_memo_id mt = memoId, t_name t = tag] \<noteq> [])"

text \<open>The \<^verbatim>\<open>whereClause\<close> the route builds, as a predicate on a memo row.\<close>

definition whereClause :: "db \<Rightarrow> list_query \<Rightarrow> memo_row \<Rightarrow> bool" where
  "whereClause d q m =
     (m_row_status m = or_else (q_rowStatus q) ''NORMAL'' \<and>
      (case q_creatorId q of None \<Rightarrow> True | Some creatorId \<Rightarrow> m_creator_id m = creatorId) \<and>
      (if truthy (q_visibility q) then Some (m_visibility m) = q_visibility q
       else if q_creatorId q = None then m_visibility m = ''PUBLIC'' else True) \<and>
      (if truthy (q_tag q) then exists_tag d (m_id m) (or_else (q_tag q) []) else True))"

text \<open>
  \<^verbatim>\<open>LIMIT ? OFFSET ?\<close>: a negative limit is no limit, a negative offset is none.
\<close>

definition limit_offset :: "int \<Rightarrow> int \<Rightarrow> 'a list \<Rightarrow> 'a list" where
  "limit_offset lim off rows =
     (let rest = drop (nat off) rows in if lim < 0 then rest else take (nat lim) rest)"

text \<open>
  The list query \<^verbatim>\<open>SELECT m.*, u.username as creator_username FROM memo m JOIN user u
  ON m.creator_id = u.id ${whereClause} ORDER BY m.created_ts DESC LIMIT ? OFFSET ?\<close>,
  in two steps: the joined rows that pass the where clause, newest first (rows of one
  timestamp stay in storage order), and the page cut out of them.
\<close>

definition ordered_memos :: "db \<Rightarrow> list_query \<Rightarrow> memo_row list" where
  "ordered_memos d q =
     sort_key (\<lambda>m. - m_created_ts m)
       [m. m \<leftarrow> tbl_memo d, u \<leftarrow> tbl_user d, m_creator_id m = u_id u, whereClause d q m]"

definition select_memos :: "db \<Rightarrow> list_query \<Rightarrow> memo_row list" where
  "select_memos d q =
     (let limit = (case q_limit q of None \<Rightarrow> 50 | Some n \<Rightarrow> n);
          offset = (case q_offset q of None \<Rightarrow> 0 | Some n \<Rightarrow> n)
      in limit_offset limit offset (ordered_memos d q))"

text \<open>\<^verbatim>\<open>memoRoutes.get('/')\<close>\<close>

definition get_memos :: "db \<Rightarrow> list_query \<Rightarrow> memo_view option list" where
  "get_memos d q = map (\<lambda>memo. getMemoWithDetails d (m_id memo)) (select_memos d q)"

section \<open>Updating a memo\<close>

text \<open>
  The \<^verbatim>\<open>updates\<close> array of the route, one entry per \<^verbatim>\<open>column = ?\<close> with its value, and the
  \<^verbatim>\<open>UPDATE memo SET ... WHERE id = ?\<close> that applies it.
\<close>

datatype assignment =
  SetContent string
  | SetVisibility string
  | SetRowStatus string
  | SetUpdatedTs int

fun assign :: "assignment \<Rightarrow> memo_row \<Rightarrow> memo_row" where
  "assign (SetContent x) m = m\<lparr>m_content := x\<rparr>"
| "assign (SetVisibility x) m = m\<lparr>m_visibility := x\<rparr>"
| "assign (SetRowStatus x) m = m\<lparr>m_row_status := x\<rparr>"
| "assign (SetUpdatedTs x) m = m\<lparr>m_updated_ts := x\<rparr>"

definition update_memo_set :: "db \<Rightarrow> assignment list \<Rightarrow> int \<Rightarrow> db" where
  "update_memo_set d updates memoId =
     d\<lparr>tbl_memo := map (\<lambda>m. if m_id m = memoId then fold assign updates m else m) (tbl_memo d)\<rparr>"

text \<open>
  The guard shared by update and delete: \<^verbatim>\<open>memo.creator_id !== userId &&
  userPayload.role !== 'HOST'\<close> is forbidden.
\<close>

definition write_forbidden :: "db \<Rightarrow> user_payload \<Rightarrow> memo_row \<Rightarrow> bool" where
  "write_forbidden d up memo =
     (Some (m_creator_id memo) \<noteq> getUserIdFromUid d (sub up) \<and> role up \<noteq> ''HOST'')"

text \<open>\<^verbatim>\<open>memoRoutes.patch('/:id')\<close>: the response and the store it leaves.\<close>

definition patch_memo ::
  "env \<Rightarrow> db \<Rightarrow> user_payload option \<Rightarrow> int \<Rightarrow> memo_body
     \<Rightarrow> (error + memo_view option) \<times> db" where
  "patch_memo e d userPayload memoId body =
     (case userPayload of
        None \<Rightarrow> (Inl Unauthorized, d)
      | Some up \<Rightarrow>
          (case select_memo d memoId of
             None \<Rightarrow> (Inl MemoNotFound, d)
           | Some memo \<Rightarrow>
               if write_forbidden d up memo then (Inl Forbidden, d)
               else
                 (let userId = getUserIdFromUid d (sub up);
                      resources = (case b_resources body of None \<Rightarrow> [] | Some l \<Rightarrow> l);
                      updates =
                        (case b_content body of None \<Rightarrow> [] | Some x \<Rightarrow> [SetContent x]) @
                        (case b_visibility body of None \<Rightarrow> [] | Some x \<Rightarrow> [SetVisibility x]) @
                        [SetUpdatedTs (clock e)];
                      d1 = (if length updates > 1 then update_memo_set d updates memoId else d);
                      finalResourceIdList =
                        (if length resources > 0 then Some (convert_resources d1 resources [])
                         else b_resourceIdList body);
                      d2 = (case finalResourceIdList of
                              None \<Rightarrow> d1
                            | Some l \<Rightarrow>
                                insert_memo_resources (delete_memo_resources d1 memoId) memoId l);
                      d3 = (case (b_content body, userId) of
                              (Some x, Some uid) \<Rightarrow>
                                if uid \<noteq> 0 then run_updateMemoTags e d2 memoId uid x else d2
                            | _ \<Rightarrow> d2)
                  in (Inr (getMemoWithDetails d3 memoId), d3))))"

section \<open>Deleting a memo\<close>

text \<open>
  \<^verbatim>\<open>memoRoutes.delete('/:id')\<close>: the response (\<open>Inr ()\<close> is the message of success) and
  the store it leaves.
\<close>

definition delete_memo ::
  "env \<Rightarrow> db \<Rightarrow> user_payload option \<Rightarrow> int \<Rightarrow> (error + unit) \<times> db" where
  "delete_memo e d userPayload memoId =
     (case userPayload of
        None \<Rightarrow> (Inl Unauthorized, d)
      | Some up \<Rightarrow>
          (case select_memo d memoId of
             None \<Rightarrow> (Inl MemoNotFound, d)
           | Some memo \<Rightarrow>
               if write_forbidden d up memo then (Inl Forbidden, d)
               else
                 (Inr (),
                  update_memo_set d [SetRowStatus ''ARCHIVED'', SetUpdatedTs (clock e)] memoId)))"

section \<open>Statistics\<close>







section \<open>Integrity of the store\<close>

text \<open>
  The data model's constraints on the memo table: the numeric id is the key of a memo, and
  the owner reference of a memo is the id of a row of the user table. Create, update and
  delete keep both (section "The mutations keep the store's integrity").
\<close>

definition wf_store :: "db \<Rightarrow> bool" where
  "wf_store d =
     (distinct (map m_id (tbl_memo d)) \<and>
      list_all (\<lambda>m. m_creator_id m \<in> set (map u_id (tbl_user d))) (tbl_memo d))"

section \<open>Predicates of the statements\<close>

text \<open>
  A view shows a memo row when its scalar fields are the row's columns.
\<close>

definition shows_row :: "memo_view \<Rightarrow> memo_row \<Rightarrow> bool" where
  "shows_row v m =
     (v_id v = m_id m \<and> v_uid v = m_uid m \<and> v_creatorId v = m_creator_id m \<and>
      v_content v = m_content m \<and> v_visibility v = m_visibility m \<and>
      v_rowStatus v = m_row_status m \<and> v_createdTs v = m_created_ts m \<and>
      v_updatedTs v = m_updated_ts m)"

text \<open>
  What one structured reference contributes to the final id list: the id of the resource
  row its uid names, or nothing when the name is missing, the uid is empty or no row has
  the uid.
\<close>

definition resolved_id :: "db \<Rightarrow> resource_ref \<Rightarrow> int option" where
  "resolved_id d resource =
     (case resourceUid_of resource of
        None \<Rightarrow> None
      | Some resourceUid \<Rightarrow>
          if resourceUid = [] then None
          else map_option r_id (select_resource_by_uid d resourceUid))"

text \<open>The association rows of one memo for a list of resource ids, in the list's order.\<close>

definition links :: "int \<Rightarrow> int list \<Rightarrow> memo_resource_row list" where
  "links memoId ids = map (\<lambda>resourceId. \<lparr>mr_memo_id = memoId, mr_resource_id = resourceId\<rparr>) ids"

text \<open>A memo row after it was archived at a given time.\<close>

definition archived :: "int \<Rightarrow> memo_row \<Rightarrow> memo_row" where
  "archived ts m = m\<lparr> m_row_status := ''ARCHIVED'', m_updated_ts := ts \<rparr>"


section \<open>Stores and requests for concrete runs\<close>

text \<open>
  Two users, alice (id 1) and bob (id 2); a public and a private memo of alice; two
  resources, the first attached to the private memo; one tag, linked to the public memo.
\<close>

definition ex_db :: db where
  "ex_db =
     \<lparr> tbl_memo =
         [\<lparr> m_id = 1, m_uid = ''m-1'', m_creator_id = 1, m_content = ''hello #world'',
            m_visibility = ''PUBLIC'', m_row_status = ''NORMAL'',
            m_created_ts = 1000, m_updated_ts = 1000 \<rparr>,
          \<lparr> m_id = 2, m_uid = ''m-2'', m_creator_id = 1, m_content = ''secret'',
            m_visibility = ''PRIVATE'', m_row_status = ''NORMAL'',
            m_created_ts = 2000, m_updated_ts = 2000 \<rparr>],
       tbl_user =
         [\<lparr> u_id = 1, u_uid = ''uid-a'', u_username = ''alice'' \<rparr>,
          \<lparr> u_id = 2, u_uid = ''uid-b'', u_username = ''bob'' \<rparr>],
       tbl_resource =
         [\<lparr> r_id = 7, r_uid = ''abc123'', r_filename = ''a.png'', r_type = ''image/png'',
            r_size = 10, r_external_link = [], r_created_ts = 900 \<rparr>,
          \<lparr> r_id = 8, r_uid = ''def456'', r_filename = ''b.pdf'', r_type = ''application/pdf'',
            r_size = 20, r_external_link = [], r_created_ts = 950 \<rparr>],
       tbl_memo_resource = [\<lparr> mr_memo_id = 2, mr_resource_id = 7 \<rparr>],
       tbl_tag = [\<lparr> t_id = 1, t_name = ''world'' \<rparr>],
       tbl_memo_tag = [\<lparr> mt_memo_id = 1, mt_tag_id = 1 \<rparr>] \<rparr>"

definition ex_public :: memo_row where
  "ex_public = \<lparr> m_id = 1, m_uid = ''m-1'', m_creator_id = 1, m_content = ''hello #world'',
            m_visibility = ''PUBLIC'', m_row_status = ''NORMAL'',
            m_created_ts = 1000, m_updated_ts = 1000 \<rparr>"

definition ex_private :: memo_row where
  "ex_private = \<lparr> m_id = 2, m_uid = ''m-2'', m_creator_id = 1, m_content = ''secret'',
            m_visibility = ''PRIVATE'', m_row_status = ''NORMAL'',
            m_created_ts = 2000, m_updated_ts = 2000 \<rparr>"

definition alice :: user_payload where
  "alice = \<lparr> sub = ''uid-a'', username = ''alice'', role = ''USER'' \<rparr>"

definition bob :: user_payload where
  "bob = \<lparr> sub = ''uid-b'', username = ''bob'', role = ''USER'' \<rparr>"

definition ex_env :: env where
  "ex_env = \<lparr> clock = 5000, uuidv4 = ''m-3'', insert_success = True,
              updateMemoTags = (\<lambda>memoId userId content tables. tables) \<rparr>"

definition host :: user_payload where
  "host = \<lparr> sub = ''uid-b'', username = ''bob'', role = ''HOST'' \<rparr>"

definition stranger :: user_payload where
  "stranger = \<lparr> sub = ''uid-x'', username = ''eve'', role = ''USER'' \<rparr>"

definition empty_body :: memo_body where
  "empty_body = \<lparr> b_content = None, b_visibility = None, b_resourceIdList = None,
                  b_resources = None \<rparr>"

definition content_body :: memo_body where
  "content_body = \<lparr> b_content = Some ''rewritten'', b_visibility = None,
                    b_resourceIdList = None, b_resources = None \<rparr>"

definition ref :: "string \<Rightarrow> resource_ref" where
  "ref n = \<lparr> ref_name = Some n \<rparr>"

definition resources_body :: "resource_ref list \<Rightarrow> memo_body" where
  "resources_body rs = \<lparr> b_content = None, b_visibility = None, b_resourceIdList = None,
                         b_resources = Some rs \<rparr>"

definition resourceIdList_body :: "int list \<Rightarrow> memo_body" where
  "resourceIdList_body ids = \<lparr> b_content = None, b_visibility = None,
                               b_resourceIdList = Some ids, b_resources = None \<rparr>"

definition three_refs :: "resource_ref list" where
  "three_refs = [ref ''resources/abc123'', ref ''resources/nope'', ref ''resources/def456'']"

definition note_body :: memo_body where
  "note_body = \<lparr> b_content = Some ''note'', b_visibility = None, b_resourceIdList = None,
                 b_resources = Some three_refs \<rparr>"

definition both_body :: memo_body where
  "both_body = \<lparr> b_content = Some ''note'', b_visibility = None, b_resourceIdList = Some [8],
                 b_resources = Some [ref ''resources/def456'', ref ''resources/abc123'',
                                     ref ''resources/abc123''] \<rparr>"

definition default_query :: list_query where
  "default_query = \<lparr> q_rowStatus = None, q_creatorId = None, q_tag = None,
                     q_visibility = None, q_limit = None, q_offset = None \<rparr>"

definition owner_query :: list_query where
  "owner_query = \<lparr> q_rowStatus = None, q_creatorId = Some 1, q_tag = None,
                   q_visibility = None, q_limit = None, q_offset = None \<rparr>"

definition ex_db_deleted :: db where
  "ex_db_deleted = snd (delete_memo ex_env ex_db (Some alice) 2)"




section \<open>Facts about the queries\<close>

lemma first_eq_None: "first xs = None \<longleftrightarrow> xs = []"
  by (cases xs) (simp_all add: first_def)

lemma first_Cons: "first (x # xs) = Some x"
  by (simp add: first_def)

lemma first_Some_mem: "first xs = Some x \<Longrightarrow> x \<in> set xs"
  by (cases xs) (simp_all add: first_def)

lemma filter_key_single:
  "distinct (map f xs) \<Longrightarrow> x \<in> set xs \<Longrightarrow> filter (\<lambda>y. f y = f x) xs = [x]"
proof (induction xs)
  case Nil
  then show ?case by simp
next
  case (Cons a xs)
  show ?case
  proof (cases "a = x")
    case True
    have "filter (\<lambda>y. f y = f x) xs = []"
      using Cons.prems True by (auto simp: filter_empty_conv image_iff)
    with True show ?thesis by simp
  next
    case False
    with Cons show ?thesis by auto
  qed
qed

lemma select_memo_found:
  "wf_store d \<Longrightarrow> m \<in> set (tbl_memo d) \<Longrightarrow> select_memo d (m_id m) = Some m"
  by (simp add: select_memo_def wf_store_def filter_key_single first_Cons)

lemma select_memo_missing:
  "memoId \<notin> m_id ` set (tbl_memo d) \<Longrightarrow> select_memo d memoId = None"
  by (auto simp: select_memo_def first_eq_None filter_empty_conv)

lemma join_rows:
  "[(m, u_username u). m \<leftarrow> ms, u \<leftarrow> us, m_creator_id m = u_id u, m_id m = i] =
   concat (map (\<lambda>m. map (\<lambda>u. (m, u_username u)) (filter (\<lambda>u. u_id u = m_creator_id m) us))
                (filter (\<lambda>m. m_id m = i) ms))"
proof (induction ms)
  case Nil
  then show ?case by simp
next
  case (Cons a ms)
  have inner: "concat (map (\<lambda>u. if m_creator_id a = u_id u then if m_id a = i then [(a, u_username u)] else [] else []) us)
      = (if m_id a = i then map (\<lambda>u. (a, u_username u)) (filter (\<lambda>u. u_id u = m_creator_id a) us) else [])"
    by (induction us) auto
  show ?case using Cons inner by simp
qed

lemma select_memo_join_user_found:
  assumes "wf_store d" "m \<in> set (tbl_memo d)"
  shows "\<exists>un. select_memo_join_user d (m_id m) = Some (m, un)"
proof -
  have f: "filter (\<lambda>y. m_id y = m_id m) (tbl_memo d) = [m]"
    using assms by (simp add: wf_store_def filter_key_single)
  have "m_creator_id m \<in> set (map u_id (tbl_user d))"
    using assms by (auto simp: wf_store_def list_all_iff)
  then have "filter (\<lambda>u. u_id u = m_creator_id m) (tbl_user d) \<noteq> []"
    by (auto simp: filter_empty_conv)
  then obtain u us where "filter (\<lambda>u. u_id u = m_creator_id m) (tbl_user d) = u # us"
    by (cases "filter (\<lambda>u. u_id u = m_creator_id m) (tbl_user d)") auto
  then show ?thesis
    by (simp add: select_memo_join_user_def join_rows f first_Cons)
qed

lemma select_memo_join_user_missing:
  "memoId \<notin> m_id ` set (tbl_memo d) \<Longrightarrow> select_memo_join_user d memoId = None"
  by (auto simp: select_memo_join_user_def join_rows first_eq_None filter_empty_conv)

lemma select_memo_join_user_Some:
  "select_memo_join_user d memoId = Some (m, un) \<Longrightarrow> m \<in> set (tbl_memo d) \<and> m_id m = memoId"
  by (auto simp: select_memo_join_user_def join_rows dest!: first_Some_mem)

lemma getMemoWithDetails_found:
  assumes "wf_store d" "m \<in> set (tbl_memo d)"
  shows "\<exists>v. getMemoWithDetails d (m_id m) = Some v \<and> shows_row v m"
proof -
  obtain un where "select_memo_join_user d (m_id m) = Some (m, un)"
    using select_memo_join_user_found[OF assms] by blast
  then show ?thesis
    by (simp add: getMemoWithDetails_def shows_row_def Let_def)
qed

subsection \<open>C1: who may read a memo\<close>

text \<open>
  C1. The route finds a memo through the join of the memo table with the user table, so
  the statement is about a store that keeps the data model's constraints (\<open>wf_store\<close>: ids
  are keys and every memo's owner has a user row). There, the direct fetch of a memo whose
  visibility is PUBLIC answers with the memo's view for every requester, the anonymous one
  included. The fetch of a memo whose visibility is PRIVATE answers with the view when the
  requester is authenticated and the id their uid resolves to is the memo's creator id,
  and with Forbidden in every other case. An id that no memo row carries is answered with
  "Memo not found", whoever asks.
\<close>

theorem get_memo_visibility:
  "(wf_store d \<and> m \<in> set (tbl_memo d) \<longrightarrow>
      (m_visibility m = ''PUBLIC'' \<longrightarrow>
         (\<exists>v. get_memo d userPayload (m_id m) = Inr (Some v) \<and> shows_row v m)) \<and>
      (m_visibility m = ''PRIVATE'' \<longrightarrow>
         (if \<exists>up. userPayload = Some up \<and> getUserIdFromUid d (sub up) = Some (m_creator_id m)
          then \<exists>v. get_memo d userPayload (m_id m) = Inr (Some v) \<and> shows_row v m
          else get_memo d userPayload (m_id m) = Inl Forbidden))) \<and>
   (memoId \<notin> m_id ` set (tbl_memo d) \<longrightarrow> get_memo d userPayload memoId = Inl MemoNotFound)"
proof (intro conjI impI)
  assume "memoId \<notin> m_id ` set (tbl_memo d)"
  then show "get_memo d userPayload memoId = Inl MemoNotFound"
    by (simp add: get_memo_def select_memo_join_user_missing)
next
  assume a: "wf_store d \<and> m \<in> set (tbl_memo d)" and pub: "m_visibility m = ''PUBLIC''"
  obtain un where j: "select_memo_join_user d (m_id m) = Some (m, un)"
    using select_memo_join_user_found a by blast
  show "\<exists>v. get_memo d userPayload (m_id m) = Inr (Some v) \<and> shows_row v m"
    using getMemoWithDetails_found[of d m] a j pub by (simp add: get_memo_def)
next
  assume a: "wf_store d \<and> m \<in> set (tbl_memo d)" and priv: "m_visibility m = ''PRIVATE''"
  obtain un where j: "select_memo_join_user d (m_id m) = Some (m, un)"
    using select_memo_join_user_found a by blast
  show "if \<exists>up. userPayload = Some up \<and> getUserIdFromUid d (sub up) = Some (m_creator_id m)
        then \<exists>v. get_memo d userPayload (m_id m) = Inr (Some v) \<and> shows_row v m
        else get_memo d userPayload (m_id m) = Inl Forbidden"
  proof (cases userPayload)
    case None
    then show ?thesis using j priv by (simp add: get_memo_def)
  next
    case (Some up)
    show ?thesis
    proof (cases "getUserIdFromUid d (sub up) = Some (m_creator_id m)")
      case True
      then show ?thesis
        using getMemoWithDetails_found[of d m] a j priv Some by (simp add: get_memo_def)
    next
      case False
      then have "Some (m_creator_id m) \<noteq> getUserIdFromUid d (sub up)" by metis
      then show ?thesis using j priv Some False by (simp add: get_memo_def)
    qed
  qed
qed

lemma ex_db_wf: "wf_store ex_db"
  by (simp add: wf_store_def ex_db_def)

text \<open>
  C1 on the example store: the public memo 1 is read by the anonymous requester and by
  bob; the private memo 2 is read by its owner alice and refused to bob and to the
  anonymous requester; id 3 is not found.
\<close>

theorem get_memo_visibility_witness:
  "wf_store ex_db \<and> ex_public \<in> set (tbl_memo ex_db) \<and> ex_private \<in> set (tbl_memo ex_db) \<and>
   m_visibility ex_public = ''PUBLIC'' \<and> m_visibility ex_private = ''PRIVATE'' \<and>
   (\<exists>v. get_memo ex_db None 1 = Inr (Some v) \<and> shows_row v ex_public) \<and>
   (\<exists>v. get_memo ex_db (Some bob) 1 = Inr (Some v) \<and> shows_row v ex_public) \<and>
   getUserIdFromUid ex_db (sub alice) = Some (m_creator_id ex_private) \<and>
   (\<exists>v. get_memo ex_db (Some alice) 2 = Inr (Some v) \<and> shows_row v ex_private) \<and>
   getUserIdFromUid ex_db (sub bob) = Some 2 \<and>
   get_memo ex_db (Some bob) 2 = Inl Forbidden \<and>
   get_memo ex_db None 2 = Inl Forbidden \<and>
   3 \<notin> m_id ` set (tbl_memo ex_db) \<and>
   get_memo ex_db (Some alice) 3 = Inl MemoNotFound"
proof -
  have mem: "ex_public \<in> set (tbl_memo ex_db)" "ex_private \<in> set (tbl_memo ex_db)"
    by (simp_all add: ex_db_def ex_public_def ex_private_def)
  have vis: "m_visibility ex_public = ''PUBLIC''" "m_visibility ex_private = ''PRIVATE''"
    "m_id ex_public = 1" "m_id ex_private = 2" "m_creator_id ex_private = 1"
    by (simp_all add: ex_public_def ex_private_def)
  have ids: "getUserIdFromUid ex_db (sub alice) = Some 1" "getUserIdFromUid ex_db (sub bob) = Some 2"
    by (simp_all add: getUserIdFromUid_def select_user_by_uid_def first_def ex_db_def alice_def bob_def)
  have miss: "3 \<notin> m_id ` set (tbl_memo ex_db)"
    by (simp add: ex_db_def)
  show ?thesis
    using get_memo_visibility[of ex_db ex_public None 3]
      get_memo_visibility[of ex_db ex_public "Some bob" 3]
      get_memo_visibility[of ex_db ex_private "Some alice" 3]
      get_memo_visibility[of ex_db ex_private "Some bob" 3]
      get_memo_visibility[of ex_db ex_private None 3]
      ex_db_wf mem vis ids miss
    by simp
qed

section \<open>Facts about the mutations\<close>

lemma select_memo_distinct:
  "distinct (map m_id (tbl_memo d)) \<Longrightarrow> m \<in> set (tbl_memo d) \<Longrightarrow> select_memo d (m_id m) = Some m"
  by (simp add: select_memo_def filter_key_single first_Cons)

lemma insert_memo_resources_frame:
  "tbl_memo (insert_memo_resources d i l) = tbl_memo d"
  "tbl_user (insert_memo_resources d i l) = tbl_user d"
  "tbl_resource (insert_memo_resources d i l) = tbl_resource d"
  "tbl_tag (insert_memo_resources d i l) = tbl_tag d"
  "tbl_memo_tag (insert_memo_resources d i l) = tbl_memo_tag d"
  by (induction d i l rule: insert_memo_resources.induct) simp_all

lemma insert_memo_resources_rows:
  "tbl_memo_resource (insert_memo_resources d i l) =
   tbl_memo_resource d @ map (\<lambda>r. \<lparr>mr_memo_id = i, mr_resource_id = r\<rparr>) l"
  by (induction d i l rule: insert_memo_resources.induct) simp_all

lemma run_updateMemoTags_frame:
  "tbl_memo (run_updateMemoTags e d i u c) = tbl_memo d"
  "tbl_user (run_updateMemoTags e d i u c) = tbl_user d"
  "tbl_resource (run_updateMemoTags e d i u c) = tbl_resource d"
  "tbl_memo_resource (run_updateMemoTags e d i u c) = tbl_memo_resource d"
  by (simp_all add: run_updateMemoTags_def split: prod.splits)

lemma delete_memo_resources_frame:
  "tbl_memo (delete_memo_resources d i) = tbl_memo d"
  "tbl_user (delete_memo_resources d i) = tbl_user d"
  "tbl_resource (delete_memo_resources d i) = tbl_resource d"
  "tbl_tag (delete_memo_resources d i) = tbl_tag d"
  "tbl_memo_tag (delete_memo_resources d i) = tbl_memo_tag d"
  by (simp_all add: delete_memo_resources_def)

lemma update_memo_set_frame:
  "tbl_user (update_memo_set d us i) = tbl_user d"
  "tbl_resource (update_memo_set d us i) = tbl_resource d"
  "tbl_memo_resource (update_memo_set d us i) = tbl_memo_resource d"
  "tbl_tag (update_memo_set d us i) = tbl_tag d"
  "tbl_memo_tag (update_memo_set d us i) = tbl_memo_tag d"
  by (simp_all add: update_memo_set_def)

lemma patch_memo_error_cases:
  "patch_memo e d None memoId body = (Inl Unauthorized, d)"
  "select_memo d memoId = None \<Longrightarrow> patch_memo e d (Some up) memoId body = (Inl MemoNotFound, d)"
  "select_memo d memoId = Some memo \<Longrightarrow> write_forbidden d up memo \<Longrightarrow>
     patch_memo e d (Some up) memoId body = (Inl Forbidden, d)"
  by (simp_all add: patch_memo_def)

lemma patch_memo_permitted:
  "select_memo d memoId = Some memo \<Longrightarrow> \<not> write_forbidden d up memo \<Longrightarrow>
     \<exists>v. fst (patch_memo e d (Some up) memoId body) = Inr v"
  by (simp add: patch_memo_def Let_def)

subsection \<open>C2: who may update or delete a memo\<close>

text \<open>
  C2. An update or delete request without a principal is answered with Unauthorized. With
  a principal, an id that no memo row carries is answered with "Memo not found"; the
  lookup comes before the ownership check. For a memo of the store (ids being keys), the
  request passes the guard exactly when the id the requester's uid resolves to is the
  memo's creator id or the requester's role is HOST: then the update answers with a view
  and the delete with its message of success, and otherwise both answer with Forbidden.
  Every refused request leaves the store as it was.
\<close>

theorem write_guard:
  "patch_memo e d None memoId body = (Inl Unauthorized, d) \<and>
   delete_memo e d None memoId = (Inl Unauthorized, d) \<and>
   (memoId \<notin> m_id ` set (tbl_memo d) \<longrightarrow>
      patch_memo e d (Some up) memoId body = (Inl MemoNotFound, d) \<and>
      delete_memo e d (Some up) memoId = (Inl MemoNotFound, d)) \<and>
   (distinct (map m_id (tbl_memo d)) \<and> m \<in> set (tbl_memo d) \<longrightarrow>
      (if getUserIdFromUid d (sub up) = Some (m_creator_id m) \<or> role up = ''HOST''
       then (\<exists>v. fst (patch_memo e d (Some up) (m_id m) body) = Inr v) \<and>
            fst (delete_memo e d (Some up) (m_id m)) = Inr ()
       else patch_memo e d (Some up) (m_id m) body = (Inl Forbidden, d) \<and>
            delete_memo e d (Some up) (m_id m) = (Inl Forbidden, d)))"
proof (intro conjI impI)
  show "patch_memo e d None memoId body = (Inl Unauthorized, d)"
    by (rule patch_memo_error_cases)
  show "delete_memo e d None memoId = (Inl Unauthorized, d)"
    by (simp add: delete_memo_def)
next
  assume "memoId \<notin> m_id ` set (tbl_memo d)"
  then have none: "select_memo d memoId = None" by (rule select_memo_missing)
  then show "patch_memo e d (Some up) memoId body = (Inl MemoNotFound, d)"
    by (rule patch_memo_error_cases)
  from none show "delete_memo e d (Some up) memoId = (Inl MemoNotFound, d)"
    by (simp add: delete_memo_def)
next
  assume "distinct (map m_id (tbl_memo d)) \<and> m \<in> set (tbl_memo d)"
  then have found: "select_memo d (m_id m) = Some m"
    by (simp add: select_memo_distinct)
  show "if getUserIdFromUid d (sub up) = Some (m_creator_id m) \<or> role up = ''HOST''
        then (\<exists>v. fst (patch_memo e d (Some up) (m_id m) body) = Inr v) \<and>
             fst (delete_memo e d (Some up) (m_id m)) = Inr ()
        else patch_memo e d (Some up) (m_id m) body = (Inl Forbidden, d) \<and>
             delete_memo e d (Some up) (m_id m) = (Inl Forbidden, d)"
  proof (cases "getUserIdFromUid d (sub up) = Some (m_creator_id m) \<or> role up = ''HOST''")
    case True
    then have ok: "\<not> write_forbidden d up m"
      by (auto simp: write_forbidden_def)
    have "fst (delete_memo e d (Some up) (m_id m)) = Inr ()"
      using found ok by (simp add: delete_memo_def)
    with patch_memo_permitted[OF found ok] True show ?thesis by simp
  next
    case False
    then have no: "write_forbidden d up m"
      by (auto simp: write_forbidden_def)
    have "delete_memo e d (Some up) (m_id m) = (Inl Forbidden, d)"
      using found no by (simp add: delete_memo_def)
    with patch_memo_error_cases(3)[OF found no] False show ?thesis by simp
  qed
qed

lemma ex_ids:
  "getUserIdFromUid ex_db (sub alice) = Some 1"
  "getUserIdFromUid ex_db (sub bob) = Some 2"
  "getUserIdFromUid ex_db (sub host) = Some 2"
  "getUserIdFromUid ex_db (sub stranger) = None"
  by (simp_all add: getUserIdFromUid_def select_user_by_uid_def first_def ex_db_def
      alice_def bob_def host_def stranger_def)

lemma ex_rows:
  "ex_public \<in> set (tbl_memo ex_db)" "ex_private \<in> set (tbl_memo ex_db)"
  "distinct (map m_id (tbl_memo ex_db))" "3 \<notin> m_id ` set (tbl_memo ex_db)"
  "m_id ex_public = 1" "m_id ex_private = 2"
  "m_creator_id ex_public = 1" "m_creator_id ex_private = 1"
  by (simp_all add: ex_db_def ex_public_def ex_private_def)

text \<open>
  C2 on the example store: id 3 is not found; on the private memo 2 of alice, alice (the
  owner) and a HOST who is not the owner pass the guard, bob is refused.
\<close>

theorem write_guard_witness:
  "3 \<notin> m_id ` set (tbl_memo ex_db) \<and>
   patch_memo ex_env ex_db (Some alice) 3 empty_body = (Inl MemoNotFound, ex_db) \<and>
   delete_memo ex_env ex_db (Some alice) 3 = (Inl MemoNotFound, ex_db) \<and>
   distinct (map m_id (tbl_memo ex_db)) \<and> ex_private \<in> set (tbl_memo ex_db) \<and>
   getUserIdFromUid ex_db (sub alice) = Some (m_creator_id ex_private) \<and>
   (\<exists>v. fst (patch_memo ex_env ex_db (Some alice) 2 empty_body) = Inr v) \<and>
   fst (delete_memo ex_env ex_db (Some alice) 2) = Inr () \<and>
   getUserIdFromUid ex_db (sub host) \<noteq> Some (m_creator_id ex_private) \<and> role host = ''HOST'' \<and>
   (\<exists>v. fst (patch_memo ex_env ex_db (Some host) 2 empty_body) = Inr v) \<and>
   fst (delete_memo ex_env ex_db (Some host) 2) = Inr () \<and>
   getUserIdFromUid ex_db (sub bob) \<noteq> Some (m_creator_id ex_private) \<and> role bob \<noteq> ''HOST'' \<and>
   patch_memo ex_env ex_db (Some bob) 2 empty_body = (Inl Forbidden, ex_db) \<and>
   delete_memo ex_env ex_db (Some bob) 2 = (Inl Forbidden, ex_db)"
proof -
  have roles: "role host = ''HOST''" "role bob \<noteq> ''HOST''" "role alice \<noteq> ''HOST''"
    by (simp_all add: host_def bob_def alice_def)
  show ?thesis
    using write_guard[of ex_env ex_db 3 empty_body alice ex_private]
      write_guard[of ex_env ex_db 3 empty_body host ex_private]
      write_guard[of ex_env ex_db 3 empty_body bob ex_private]
      ex_ids ex_rows roles
    by simp
qed

lemma patch_memo_success:
  assumes "fst (patch_memo e d userPayload memoId body) = Inr v"
  obtains up memo where "userPayload = Some up" "select_memo d memoId = Some memo"
    "\<not> write_forbidden d up memo"
  using assms
  by (auto simp: patch_memo_def split: option.splits if_splits)

lemma patch_memo_tbl_memo:
  assumes "select_memo d memoId = Some memo" "\<not> write_forbidden d up memo"
  shows "tbl_memo (snd (patch_memo e d (Some up) memoId body)) =
         tbl_memo (if b_content body \<noteq> None \<or> b_visibility body \<noteq> None
                   then update_memo_set d
                          ((case b_content body of None \<Rightarrow> [] | Some x \<Rightarrow> [SetContent x]) @
                           (case b_visibility body of None \<Rightarrow> [] | Some x \<Rightarrow> [SetVisibility x]) @
                           [SetUpdatedTs (clock e)]) memoId
                   else d)"
  using assms
  by (auto simp: patch_memo_def Let_def insert_memo_resources_frame run_updateMemoTags_frame
      delete_memo_resources_frame split: option.splits)

subsection \<open>C3: what an update writes to the memo row\<close>

text \<open>
  C3, as amended. An update that succeeds changes the memo table in the row of the given
  id only, and there only the fields the body carries: the content when the body has one,
  the visibility when the body has one, and, when the body has at least one of the two,
  the updated timestamp, which becomes the current time. A body with neither content nor
  visibility leaves the whole memo table as it was, the updated timestamp included: the
  route issues its UPDATE only when \<^verbatim>\<open>updates.length > 1\<close>.
\<close>

theorem patch_memo_row:
  "fst (patch_memo e d userPayload memoId body) = Inr v \<Longrightarrow>
   tbl_memo (snd (patch_memo e d userPayload memoId body)) =
     map (\<lambda>m. if m_id m = memoId \<and> (b_content body \<noteq> None \<or> b_visibility body \<noteq> None)
               then m\<lparr> m_content := (case b_content body of None \<Rightarrow> m_content m | Some x \<Rightarrow> x),
                       m_visibility :=
                         (case b_visibility body of None \<Rightarrow> m_visibility m | Some x \<Rightarrow> x),
                       m_updated_ts := clock e \<rparr>
               else m)
       (tbl_memo d)"
proof -
  assume ok: "fst (patch_memo e d userPayload memoId body) = Inr v"
  then obtain up memo where up: "userPayload = Some up"
    and found: "select_memo d memoId = Some memo" and allowed: "\<not> write_forbidden d up memo"
    by (rule patch_memo_success)
  show ?thesis
    unfolding up patch_memo_tbl_memo[OF found allowed]
    by (cases "b_content body"; cases "b_visibility body")
      (simp_all add: update_memo_set_def map_idI)
qed

text \<open>
  C3 on the example store: alice rewrites the content of memo 2 at time 5000; the content
  and the updated timestamp of that row change, nothing else does.
\<close>

theorem patch_memo_row_witness:
  "fst (patch_memo ex_env ex_db (Some alice) 2 content_body) =
     Inr (getMemoWithDetails (snd (patch_memo ex_env ex_db (Some alice) 2 content_body)) 2) \<and>
   tbl_memo (snd (patch_memo ex_env ex_db (Some alice) 2 content_body)) =
     [ex_public, ex_private\<lparr> m_content := ''rewritten'', m_updated_ts := 5000 \<rparr>]"
proof -
  have found: "select_memo ex_db 2 = Some ex_private"
    using select_memo_distinct[of ex_db ex_private] ex_rows by simp
  have allowed: "\<not> write_forbidden ex_db alice ex_private"
    using ex_ids ex_rows by (simp add: write_forbidden_def)
  have ok: "fst (patch_memo ex_env ex_db (Some alice) 2 content_body) =
     Inr (getMemoWithDetails (snd (patch_memo ex_env ex_db (Some alice) 2 content_body)) 2)"
    using found allowed by (simp add: patch_memo_def Let_def split: option.splits prod.splits)
  have rows: "tbl_memo ex_db = [ex_public, ex_private]"
    by (simp add: ex_db_def ex_public_def ex_private_def)
  show ?thesis
    using patch_memo_row[OF ok] ok rows ex_rows
    by (simp add: content_body_def ex_env_def)
qed

text \<open>
  C3 as it was stated fails here: alice's update of memo 2 with a body that has neither
  content nor visibility succeeds at time 5000, the store is the same afterwards, and the
  view that is returned still carries the updated timestamp 2000.
\<close>

theorem patch_memo_untouched_timestamp:
  "patch_memo ex_env ex_db (Some alice) 2 empty_body = (Inr (getMemoWithDetails ex_db 2), ex_db) \<and>
   b_content empty_body = None \<and> b_visibility empty_body = None \<and>
   map_option v_updatedTs (getMemoWithDetails ex_db 2) = Some 2000 \<and>
   clock ex_env = 5000"
proof -
  have found: "select_memo ex_db 2 = Some ex_private"
    using select_memo_distinct[of ex_db ex_private] ex_rows by simp
  have allowed: "\<not> write_forbidden ex_db alice ex_private"
    using ex_ids ex_rows by (simp add: write_forbidden_def)
  have "patch_memo ex_env ex_db (Some alice) 2 empty_body = (Inr (getMemoWithDetails ex_db 2), ex_db)"
    using found allowed by (simp add: patch_memo_def empty_body_def)
  moreover obtain v where "getMemoWithDetails ex_db 2 = Some v" "shows_row v ex_private"
    using getMemoWithDetails_found[OF ex_db_wf ex_rows(2)] ex_rows by auto
  then have "map_option v_updatedTs (getMemoWithDetails ex_db 2) = Some 2000"
    by (simp add: shows_row_def ex_private_def)
  ultimately show ?thesis
    by (simp add: empty_body_def ex_env_def)
qed

subsection \<open>C10: a principal without a user row\<close>

text \<open>
  C10, as amended. A create request of an authenticated principal whose uid has no row in
  the user table writes nothing. When the body carries a non-empty content the answer is
  "User not found"; when the content is missing or empty the answer is "Content is
  required": the route checks the content before it looks the user up.
\<close>

theorem post_memo_user_not_found:
  "select_user_by_uid d (sub up) = None \<Longrightarrow>
   post_memo e d (Some up) body =
     (if b_content body = None \<or> b_content body = Some [] then (Inl ContentRequired, d)
      else (Inl UserNotFound, d))"
  by (simp add: post_memo_def Let_def split: option.splits)

text \<open>
  C10 on the example store: a principal whose uid has no user row sends a body with
  content.
\<close>

theorem post_memo_user_not_found_witness:
  "select_user_by_uid ex_db (sub stranger) = None \<and>
   post_memo ex_env ex_db (Some stranger) content_body = (Inl UserNotFound, ex_db)"
proof -
  have none: "select_user_by_uid ex_db (sub stranger) = None"
    by (simp add: select_user_by_uid_def first_def ex_db_def stranger_def)
  show ?thesis
    using post_memo_user_not_found[OF none, of ex_env content_body] none
    by (simp add: content_body_def)
qed

text \<open>
  C10 as it was stated fails here: the same principal sends a body without content and is
  answered with "Content is required" (status 400), not with "User not found".
\<close>

theorem post_memo_content_checked_first:
  "select_user_by_uid ex_db (sub stranger) = None \<and>
   post_memo ex_env ex_db (Some stranger) empty_body = (Inl ContentRequired, ex_db) \<and>
   http_status ContentRequired = 400"
  by (simp add: select_user_by_uid_def first_def ex_db_def stranger_def post_memo_def
      empty_body_def)

section \<open>Facts about the resolver\<close>

lemma convert_resources_map_filter:
  "convert_resources d rs acc = acc @ List.map_filter (resolved_id d) rs"
  by (induction d rs acc rule: convert_resources.induct)
    (simp_all add: List.map_filter_simps resolved_id_def split: option.splits)

lemma resolved_id_cong:
  "tbl_resource d' = tbl_resource d \<Longrightarrow> resolved_id d' = resolved_id d"
  by (rule ext) (simp add: resolved_id_def select_resource_by_uid_def split: option.splits)

lemma resolved_id_missing:
  "resourceUid_of r = Some uid \<Longrightarrow> uid \<notin> r_uid ` set (tbl_resource d) \<Longrightarrow> resolved_id d r = None"
  by (auto simp: resolved_id_def select_resource_by_uid_def first_eq_None filter_empty_conv)

lemma map_filter_append:
  "List.map_filter f (xs @ ys) = List.map_filter f xs @ List.map_filter f ys"
  by (simp add: List.map_filter_def)

text \<open>The association table after a create that gets as far as the insert.\<close>

lemma post_memo_links:
  assumes "b_content body = Some c" "c \<noteq> []" "select_user_by_uid d (sub up) = Some user"
    "insert_success e"
  shows "\<exists>v. fst (post_memo e d (Some up) body) = Inr v"
    and "tbl_memo_resource (snd (post_memo e d (Some up) body)) =
         tbl_memo_resource d @
         links (last_row_id (tbl_memo d))
           (case b_resources body of
              None \<Rightarrow> (case b_resourceIdList body of None \<Rightarrow> [] | Some l \<Rightarrow> l)
            | Some rs \<Rightarrow>
                if rs \<noteq> [] then List.map_filter (resolved_id d) rs
                else (case b_resourceIdList body of None \<Rightarrow> [] | Some l \<Rightarrow> l))"
proof -
  show "\<exists>v. fst (post_memo e d (Some up) body) = Inr v"
    using assms by (simp add: post_memo_def Let_def)
  have cong: "\<And>row. resolved_id (d\<lparr>tbl_memo := tbl_memo d @ [row]\<rparr>) = resolved_id d"
    by (rule resolved_id_cong) simp
  show "tbl_memo_resource (snd (post_memo e d (Some up) body)) =
         tbl_memo_resource d @
         links (last_row_id (tbl_memo d))
           (case b_resources body of
              None \<Rightarrow> (case b_resourceIdList body of None \<Rightarrow> [] | Some l \<Rightarrow> l)
            | Some rs \<Rightarrow>
                if rs \<noteq> [] then List.map_filter (resolved_id d) rs
                else (case b_resourceIdList body of None \<Rightarrow> [] | Some l \<Rightarrow> l))"
    using assms
    by (simp add: post_memo_def Let_def run_updateMemoTags_frame insert_memo_resources_rows
        convert_resources_map_filter cong links_def split: option.splits)
qed

text \<open>The association table after an update that passes the guard.\<close>

lemma patch_memo_links:
  assumes "select_memo d memoId = Some memo" "\<not> write_forbidden d up memo"
  shows "tbl_memo_resource (snd (patch_memo e d (Some up) memoId body)) =
         (case (case b_resources body of
                  None \<Rightarrow> b_resourceIdList body
                | Some rs \<Rightarrow>
                    if rs \<noteq> [] then Some (List.map_filter (resolved_id d) rs)
                    else b_resourceIdList body) of
            None \<Rightarrow> tbl_memo_resource d
          | Some l \<Rightarrow>
              filter (\<lambda>mr. mr_memo_id mr \<noteq> memoId) (tbl_memo_resource d) @ links memoId l)"
proof -
  have cong: "\<And>us. resolved_id (update_memo_set d us memoId) = resolved_id d"
    by (rule resolved_id_cong) (simp add: update_memo_set_frame)
  have tags: "\<And>d' i u c. tbl_memo_resource (run_updateMemoTags e d' i u c) = tbl_memo_resource d'"
    by (simp add: run_updateMemoTags_frame)
  have del: "\<And>d'. tbl_memo_resource (delete_memo_resources d' memoId) =
                   filter (\<lambda>mr. mr_memo_id mr \<noteq> memoId) (tbl_memo_resource d')"
    by (simp add: delete_memo_resources_def)
  show ?thesis
    using assms
    by (cases "b_content body"; cases "b_visibility body"; cases "b_resources body";
        cases "b_resourceIdList body"; cases "getUserIdFromUid d (sub up)")
      (simp_all add: patch_memo_def Let_def tags del insert_memo_resources_rows
        convert_resources_map_filter cong links_def update_memo_set_frame)
qed


lemma ex_select:
  "select_memo ex_db 2 = Some ex_private"
  "\<not> write_forbidden ex_db alice ex_private"
  "select_user_by_uid ex_db (sub alice) = Some \<lparr> u_id = 1, u_uid = ''uid-a'', u_username = ''alice'' \<rparr>"
  "last_row_id (tbl_memo ex_db) = 3"
  "tbl_memo_resource ex_db = [\<lparr>mr_memo_id = 2, mr_resource_id = 7\<rparr>]"
  "insert_success ex_env"
proof -
  show "select_memo ex_db 2 = Some ex_private"
    using select_memo_distinct[of ex_db ex_private] ex_rows by simp
  show "\<not> write_forbidden ex_db alice ex_private"
    using ex_ids ex_rows by (simp add: write_forbidden_def)
qed (simp_all add: select_user_by_uid_def first_def ex_db_def alice_def last_row_id_def ex_env_def)

lemma ex_resolved:
  "resolved_id ex_db (ref ''resources/abc123'') = Some 7"
  "resolved_id ex_db (ref ''resources/def456'') = Some 8"
  "resolved_id ex_db (ref ''resources/nope'') = None"
  "resourceUid_of (ref ''resources/nope'') = Some ''nope''"
  "''nope'' \<notin> r_uid ` set (tbl_resource ex_db)"
  by (simp_all add: resolved_id_def resourceUid_of_def ref_def last_segment_def
      select_resource_by_uid_def first_def ex_db_def)

subsection \<open>C4: an update and the resource associations\<close>

text \<open>
  C4 at the input where the route departs from it. Memo 2 of the example store has one
  association. An update whose body carries \<^verbatim>\<open>resources: []\<close> and no
  \<^verbatim>\<open>resourceIdList\<close> succeeds and leaves that association in place, while the same
  update with \<^verbatim>\<open>resourceIdList: []\<close> clears it: the destructuring default
  \<^verbatim>\<open>resources = []\<close> and the test \<^verbatim>\<open>resources.length > 0\<close> make an explicitly supplied
  empty list of structured references the same as an absent one.
\<close>

theorem patch_memo_empty_resources_kept:
  "fst (patch_memo ex_env ex_db (Some alice) 2 (resources_body [])) =
     Inr (getMemoWithDetails ex_db 2) \<and>
   tbl_memo_resource (snd (patch_memo ex_env ex_db (Some alice) 2 (resources_body []))) =
     [\<lparr>mr_memo_id = 2, mr_resource_id = 7\<rparr>] \<and>
   tbl_memo_resource (snd (patch_memo ex_env ex_db (Some alice) 2 (resourceIdList_body []))) = []"
proof -
  have "patch_memo ex_env ex_db (Some alice) 2 (resources_body []) =
        (Inr (getMemoWithDetails ex_db 2), ex_db)"
    using ex_select(1,2) by (simp add: patch_memo_def resources_body_def)
  then show ?thesis
    using patch_memo_links[OF ex_select(1,2), of ex_env "resourceIdList_body []"] ex_select(5)
    by (simp add: resourceIdList_body_def links_def)
qed

subsection \<open>C5: a reference to a resource the store does not have\<close>

text \<open>
  C5. A structured reference whose extracted uid has no row in the resource table adds
  nothing to the final id list: the list is the one the other references give. The
  enclosing request is not failed by it: a create that is authenticated, has content,
  finds its user and gets its memo row inserted answers with a view and associates the new
  memo with exactly the ids of the other references; an update that passes the guard
  answers with a view and replaces the memo's associations by exactly those ids.
\<close>

theorem missing_reference_dropped:
  assumes "resourceUid_of r = Some uid" and "uid \<notin> r_uid ` set (tbl_resource d)"
  shows "convert_resources d (rs1 @ r # rs2) [] = convert_resources d (rs1 @ rs2) [] \<and>
    (b_content body = Some c \<and> c \<noteq> [] \<and> select_user_by_uid d (sub up) = Some user \<and>
     insert_success e \<and> b_resources body = Some (rs1 @ r # rs2) \<longrightarrow>
       (\<exists>v. fst (post_memo e d (Some up) body) = Inr v) \<and>
       tbl_memo_resource (snd (post_memo e d (Some up) body)) =
         tbl_memo_resource d @
         links (last_row_id (tbl_memo d)) (convert_resources d (rs1 @ rs2) [])) \<and>
    (select_memo d memoId = Some memo \<and> \<not> write_forbidden d up memo \<and>
     b_resources body = Some (rs1 @ r # rs2) \<longrightarrow>
       (\<exists>v. fst (patch_memo e d (Some up) memoId body) = Inr v) \<and>
       tbl_memo_resource (snd (patch_memo e d (Some up) memoId body)) =
         filter (\<lambda>mr. mr_memo_id mr \<noteq> memoId) (tbl_memo_resource d) @
         links memoId (convert_resources d (rs1 @ rs2) []))"
proof -
  have none: "resolved_id d r = None"
    using assms by (rule resolved_id_missing)
  have drop: "List.map_filter (resolved_id d) (rs1 @ r # rs2) =
              List.map_filter (resolved_id d) (rs1 @ rs2)"
    using none by (simp add: map_filter_append List.map_filter_simps)
  have list: "convert_resources d (rs1 @ r # rs2) [] = convert_resources d (rs1 @ rs2) []"
    using drop by (simp add: convert_resources_map_filter)
  have create: "(\<exists>v. fst (post_memo e d (Some up) body) = Inr v) \<and>
       tbl_memo_resource (snd (post_memo e d (Some up) body)) =
         tbl_memo_resource d @
         links (last_row_id (tbl_memo d)) (convert_resources d (rs1 @ rs2) [])"
    if "b_content body = Some c \<and> c \<noteq> [] \<and> select_user_by_uid d (sub up) = Some user \<and>
        insert_success e \<and> b_resources body = Some (rs1 @ r # rs2)"
    using that post_memo_links[of body c d up user e] drop
    by (simp add: convert_resources_map_filter)
  have update: "(\<exists>v. fst (patch_memo e d (Some up) memoId body) = Inr v) \<and>
       tbl_memo_resource (snd (patch_memo e d (Some up) memoId body)) =
         filter (\<lambda>mr. mr_memo_id mr \<noteq> memoId) (tbl_memo_resource d) @
         links memoId (convert_resources d (rs1 @ rs2) [])"
    if "select_memo d memoId = Some memo \<and> \<not> write_forbidden d up memo \<and>
        b_resources body = Some (rs1 @ r # rs2)"
    using that patch_memo_links[of d memoId memo up e body]
      patch_memo_permitted[of d memoId memo up e body] drop
    by (simp add: convert_resources_map_filter)
  from list create update show ?thesis by blast
qed

text \<open>
  C5 on the example store: of three references the second names no resource; create and
  update associate the memo with the resources 7 and 8 of the other two.
\<close>

theorem missing_reference_dropped_witness:
  "resourceUid_of (ref ''resources/nope'') = Some ''nope'' \<and>
   ''nope'' \<notin> r_uid ` set (tbl_resource ex_db) \<and>
   convert_resources ex_db three_refs [] = [7, 8] \<and>
   (\<exists>v. fst (post_memo ex_env ex_db (Some alice) note_body) = Inr v) \<and>
   tbl_memo_resource (snd (post_memo ex_env ex_db (Some alice) note_body)) =
     [\<lparr>mr_memo_id = 2, mr_resource_id = 7\<rparr>, \<lparr>mr_memo_id = 3, mr_resource_id = 7\<rparr>,
      \<lparr>mr_memo_id = 3, mr_resource_id = 8\<rparr>] \<and>
   (\<exists>v. fst (patch_memo ex_env ex_db (Some alice) 2 note_body) = Inr v) \<and>
   tbl_memo_resource (snd (patch_memo ex_env ex_db (Some alice) 2 note_body)) =
     [\<lparr>mr_memo_id = 2, mr_resource_id = 7\<rparr>, \<lparr>mr_memo_id = 2, mr_resource_id = 8\<rparr>]"
proof -
  have rest: "convert_resources ex_db ([ref ''resources/abc123''] @ [ref ''resources/def456'']) [] = [7, 8]"
    using ex_resolved by (simp add: convert_resources_map_filter List.map_filter_simps)
  have body: "b_content note_body = Some ''note''" "''note'' \<noteq> []"
    "b_resources note_body =
       Some ([ref ''resources/abc123''] @ ref ''resources/nope'' # [ref ''resources/def456''])"
    by (simp_all add: note_body_def three_refs_def)
  have refs: "three_refs = [ref ''resources/abc123''] @ ref ''resources/nope'' # [ref ''resources/def456'']"
    by (simp add: three_refs_def)
  show ?thesis
    using missing_reference_dropped[OF ex_resolved(4,5),
        of "[ref ''resources/abc123'']" "[ref ''resources/def456'']" note_body "''note''" alice
           "\<lparr> u_id = 1, u_uid = ''uid-a'', u_username = ''alice'' \<rparr>" ex_env 2 ex_private]
      rest body ex_select ex_resolved(4,5)
    unfolding refs
    by (simp add: links_def)
qed

subsection \<open>C6: both input shapes at once\<close>

text \<open>
  C6. When the body carries a non-empty \<^verbatim>\<open>resourceIdList\<close> and a non-empty \<^verbatim>\<open>resources\<close>
  list, the associations written for the memo are those of the structured list: one row
  for every reference that resolves, in the order of the references, a resource that is
  referenced twice being associated twice. The raw id list is not used. This holds for a
  create that gets its memo row inserted and for an update that passes the guard.
\<close>

theorem structured_resources_win:
  assumes "b_resourceIdList body = Some ids" and "ids \<noteq> []"
    and "b_resources body = Some rs" and "rs \<noteq> []"
  shows "(b_content body = Some c \<and> c \<noteq> [] \<and> select_user_by_uid d (sub up) = Some user \<and>
          insert_success e \<longrightarrow>
            tbl_memo_resource (snd (post_memo e d (Some up) body)) =
              tbl_memo_resource d @
              links (last_row_id (tbl_memo d)) (List.map_filter (resolved_id d) rs)) \<and>
         (select_memo d memoId = Some memo \<and> \<not> write_forbidden d up memo \<longrightarrow>
            tbl_memo_resource (snd (patch_memo e d (Some up) memoId body)) =
              filter (\<lambda>mr. mr_memo_id mr \<noteq> memoId) (tbl_memo_resource d) @
              links memoId (List.map_filter (resolved_id d) rs))"
proof (intro conjI impI)
  assume "b_content body = Some c \<and> c \<noteq> [] \<and> select_user_by_uid d (sub up) = Some user \<and>
          insert_success e"
  then show "tbl_memo_resource (snd (post_memo e d (Some up) body)) =
              tbl_memo_resource d @
              links (last_row_id (tbl_memo d)) (List.map_filter (resolved_id d) rs)"
    using post_memo_links(2)[of body c d up user e] assms by simp
next
  assume "select_memo d memoId = Some memo \<and> \<not> write_forbidden d up memo"
  then show "tbl_memo_resource (snd (patch_memo e d (Some up) memoId body)) =
              filter (\<lambda>mr. mr_memo_id mr \<noteq> memoId) (tbl_memo_resource d) @
              links memoId (List.map_filter (resolved_id d) rs)"
    using patch_memo_links[of d memoId memo up e body] assms by simp
qed

text \<open>
  C6 on the example store: the raw list is [8], the structured list names the resources
  8, 7 and 7 again; the rows written are those of 8, 7, 7 in this order.
\<close>

theorem structured_resources_win_witness:
  "b_resourceIdList both_body = Some [8] \<and>
   b_resources both_body =
     Some [ref ''resources/def456'', ref ''resources/abc123'', ref ''resources/abc123''] \<and>
   tbl_memo_resource (snd (post_memo ex_env ex_db (Some alice) both_body)) =
     [\<lparr>mr_memo_id = 2, mr_resource_id = 7\<rparr>, \<lparr>mr_memo_id = 3, mr_resource_id = 8\<rparr>,
      \<lparr>mr_memo_id = 3, mr_resource_id = 7\<rparr>, \<lparr>mr_memo_id = 3, mr_resource_id = 7\<rparr>] \<and>
   tbl_memo_resource (snd (patch_memo ex_env ex_db (Some alice) 2 both_body)) =
     [\<lparr>mr_memo_id = 2, mr_resource_id = 8\<rparr>, \<lparr>mr_memo_id = 2, mr_resource_id = 7\<rparr>,
      \<lparr>mr_memo_id = 2, mr_resource_id = 7\<rparr>]"
proof -
  have body: "b_resourceIdList both_body = Some [8]" "[8::int] \<noteq> []"
    "b_resources both_body =
       Some [ref ''resources/def456'', ref ''resources/abc123'', ref ''resources/abc123'']"
    "[ref ''resources/def456'', ref ''resources/abc123'', ref ''resources/abc123''] \<noteq> []"
    "b_content both_body = Some ''note''" "''note'' \<noteq> []"
    by (simp_all add: both_body_def)
  show ?thesis
    using structured_resources_win[OF body(1-4), of "''note''" ex_db alice
           "\<lparr> u_id = 1, u_uid = ''uid-a'', u_username = ''alice'' \<rparr>" ex_env 2 ex_private]
      body ex_select ex_resolved
    by (simp add: links_def List.map_filter_simps)
qed

section \<open>Facts about the list query\<close>

lemma joined_rows:
  "[m. m \<leftarrow> ms, u \<leftarrow> us, m_creator_id m = u_id u, P m] =
   concat (map (\<lambda>m. map (\<lambda>u. m) (filter (\<lambda>u. u_id u = m_creator_id m) us)) (filter P ms))"
proof (induction ms)
  case Nil
  then show ?case by simp
next
  case (Cons a ms)
  have inner: "concat (map (\<lambda>u. if m_creator_id a = u_id u then if P a then [a] else [] else []) us)
      = (if P a then map (\<lambda>u. a) (filter (\<lambda>u. u_id u = m_creator_id a) us) else [])"
    by (induction us) auto
  show ?case using Cons inner by simp
qed

lemma set_ordered_memos:
  "set (ordered_memos d q) =
   {m \<in> set (tbl_memo d). whereClause d q m \<and> m_creator_id m \<in> u_id ` set (tbl_user d)}"
  by (auto simp: ordered_memos_def joined_rows image_iff) metis

lemma set_select_memos: "set (select_memos d q) \<subseteq> set (ordered_memos d q)"
  by (auto simp: select_memos_def limit_offset_def Let_def dest: in_set_takeD in_set_dropD)

lemma sorted_ordered_memos:
  "sorted_wrt (\<lambda>a b. m_created_ts a \<ge> m_created_ts b) (ordered_memos d q)"
proof -
  have "sorted (map (\<lambda>m. - m_created_ts m) (ordered_memos d q))"
    by (simp add: ordered_memos_def)
  then show ?thesis
    by (simp add: sorted_map)
qed

lemma sorted_select_memos:
  "sorted_wrt (\<lambda>a b. m_created_ts a \<ge> m_created_ts b) (select_memos d q)"
  using sorted_ordered_memos[of d q]
  by (simp add: select_memos_def limit_offset_def Let_def sorted_wrt_take sorted_wrt_drop)

lemma select_memos_whole_page:
  "(case q_offset q of None \<Rightarrow> 0 | Some n \<Rightarrow> n) \<le> 0 \<Longrightarrow>
   (case q_limit q of None \<Rightarrow> 50 | Some n \<Rightarrow> n) < 0 \<or>
     int (length (ordered_memos d q)) \<le> (case q_limit q of None \<Rightarrow> 50 | Some n \<Rightarrow> n) \<Longrightarrow>
   select_memos d q = ordered_memos d q"
  by (auto simp: select_memos_def limit_offset_def Let_def)

lemma get_memos_views:
  assumes "wf_store d"
  shows "list_all2 (\<lambda>vo m. \<exists>v. vo = Some v \<and> shows_row v m) (get_memos d q) (select_memos d q)"
proof -
  have "\<exists>v. getMemoWithDetails d (m_id m) = Some v \<and> shows_row v m" if "m \<in> set (select_memos d q)" for m
  proof -
    have "m \<in> set (tbl_memo d)"
      using that set_select_memos[of d q] by (auto simp: set_ordered_memos)
    then show ?thesis using getMemoWithDetails_found[OF assms] by blast
  qed
  then show ?thesis
    by (simp add: get_memos_def list_all2_conv_all_nth)
qed

subsection \<open>C7: the default filters of the list\<close>

text \<open>
  C7. In a store that keeps the data model's constraints, every entry of the list answer is
  the view of the row the list query selected at that position. Without a visibility
  filter and without an owner filter, every selected memo has visibility PUBLIC. With an
  owner filter and without a visibility filter, every selected memo is that owner's, and
  every memo of that owner with the requested status (and the requested tag, when one is
  given) is among the rows the page is cut from, whatever its visibility; the page is all
  of these rows when the offset is none and the limit is negative or not less than their
  number. Without a status filter every selected memo has status NORMAL. The selected
  memos are in descending order of their creation timestamp in all cases.
\<close>

theorem list_memos_filters:
  "wf_store d \<Longrightarrow>
   list_all2 (\<lambda>vo m. \<exists>v. vo = Some v \<and> shows_row v m) (get_memos d q) (select_memos d q) \<and>
   (\<not> truthy (q_visibility q) \<and> q_creatorId q = None \<longrightarrow>
      (\<forall>m \<in> set (select_memos d q). m_visibility m = ''PUBLIC'')) \<and>
   (\<not> truthy (q_visibility q) \<and> q_creatorId q = Some owner \<longrightarrow>
      (\<forall>m \<in> set (select_memos d q). m_creator_id m = owner) \<and>
      (\<forall>m \<in> set (tbl_memo d).
          m_creator_id m = owner \<and> m_row_status m = or_else (q_rowStatus q) ''NORMAL'' \<and>
          (\<not> truthy (q_tag q) \<or> exists_tag d (m_id m) (or_else (q_tag q) []))
          \<longrightarrow> m \<in> set (ordered_memos d q)) \<and>
      ((case q_offset q of None \<Rightarrow> 0 | Some n \<Rightarrow> n) \<le> 0 \<and>
       ((case q_limit q of None \<Rightarrow> 50 | Some n \<Rightarrow> n) < 0 \<or>
        int (length (ordered_memos d q)) \<le> (case q_limit q of None \<Rightarrow> 50 | Some n \<Rightarrow> n))
       \<longrightarrow> select_memos d q = ordered_memos d q)) \<and>
   (\<not> truthy (q_rowStatus q) \<longrightarrow> (\<forall>m \<in> set (select_memos d q). m_row_status m = ''NORMAL'')) \<and>
   sorted_wrt (\<lambda>a b. m_created_ts a \<ge> m_created_ts b) (select_memos d q)"
proof -
  assume wf: "wf_store d"
  have sel: "\<And>m. m \<in> set (select_memos d q) \<Longrightarrow> m \<in> set (tbl_memo d) \<and> whereClause d q m"
    using set_select_memos[of d q] by (auto simp: set_ordered_memos)
  have public: "\<forall>m \<in> set (select_memos d q). m_visibility m = ''PUBLIC''"
    if "\<not> truthy (q_visibility q) \<and> q_creatorId q = None"
    using that sel by (auto simp: whereClause_def)
  have owned: "\<forall>m \<in> set (select_memos d q). m_creator_id m = owner"
    if "\<not> truthy (q_visibility q) \<and> q_creatorId q = Some owner"
    using that sel by (auto simp: whereClause_def)
  have all_of_owner: "\<forall>m \<in> set (tbl_memo d).
          m_creator_id m = owner \<and> m_row_status m = or_else (q_rowStatus q) ''NORMAL'' \<and>
          (\<not> truthy (q_tag q) \<or> exists_tag d (m_id m) (or_else (q_tag q) []))
          \<longrightarrow> m \<in> set (ordered_memos d q)"
    if "\<not> truthy (q_visibility q) \<and> q_creatorId q = Some owner"
  proof (intro ballI impI)
    fix m
    assume m: "m \<in> set (tbl_memo d)"
      and c: "m_creator_id m = owner \<and> m_row_status m = or_else (q_rowStatus q) ''NORMAL'' \<and>
          (\<not> truthy (q_tag q) \<or> exists_tag d (m_id m) (or_else (q_tag q) []))"
    have "m_creator_id m \<in> u_id ` set (tbl_user d)"
      using wf m by (auto simp: wf_store_def list_all_iff)
    moreover have "whereClause d q m"
      using that c by (auto simp: whereClause_def)
    ultimately show "m \<in> set (ordered_memos d q)"
      using m by (simp add: set_ordered_memos)
  qed
  have normal: "\<forall>m \<in> set (select_memos d q). m_row_status m = ''NORMAL''"
    if "\<not> truthy (q_rowStatus q)"
    using that sel by (auto simp: whereClause_def or_else_def truthy_def split: option.splits)
  from get_memos_views[OF wf] public owned all_of_owner normal
    select_memos_whole_page[of q d] sorted_select_memos[of d q]
  show ?thesis by blast
qed


lemma ex_tbl_memo: "tbl_memo ex_db = [ex_public, ex_private]"
  by (simp add: ex_db_def ex_public_def ex_private_def)

lemma ex_lists:
  "select_memos ex_db default_query = [ex_public]"
  "select_memos ex_db owner_query = [ex_private, ex_public]"
  "ordered_memos ex_db owner_query = [ex_private, ex_public]"
proof -
  have users: "tbl_user ex_db = [\<lparr> u_id = 1, u_uid = ''uid-a'', u_username = ''alice'' \<rparr>,
          \<lparr> u_id = 2, u_uid = ''uid-b'', u_username = ''bob'' \<rparr>]"
    by (simp add: ex_db_def)
  have fields: "m_creator_id ex_public = 1" "m_creator_id ex_private = 1"
    "m_row_status ex_public = ''NORMAL''" "m_row_status ex_private = ''NORMAL''"
    "m_visibility ex_public = ''PUBLIC''" "m_visibility ex_private = ''PRIVATE''"
    "m_created_ts ex_public = 1000" "m_created_ts ex_private = 2000"
    by (simp_all add: ex_public_def ex_private_def)
  show o: "ordered_memos ex_db owner_query = [ex_private, ex_public]"
    by (simp add: ordered_memos_def ex_tbl_memo users fields whereClause_def owner_query_def
        or_else_def truthy_def)
  have d: "ordered_memos ex_db default_query = [ex_public]"
    by (simp add: ordered_memos_def ex_tbl_memo users fields whereClause_def default_query_def
        or_else_def truthy_def)
  have page: "q_limit default_query = None" "q_offset default_query = None"
    "q_limit owner_query = None" "q_offset owner_query = None"
    by (simp_all add: default_query_def owner_query_def)
  show "select_memos ex_db default_query = [ex_public]"
    by (simp add: select_memos_def limit_offset_def d page)
  show "select_memos ex_db owner_query = [ex_private, ex_public]"
    by (simp add: select_memos_def limit_offset_def o page)
qed

text \<open>
  C7 on the example store: the list without filters is the public memo alone; the list
  with owner 1 also has alice's private memo, newest first.
\<close>

theorem list_memos_filters_witness:
  "wf_store ex_db \<and>
   \<not> truthy (q_visibility default_query) \<and> q_creatorId default_query = None \<and>
   \<not> truthy (q_rowStatus default_query) \<and>
   select_memos ex_db default_query = [ex_public] \<and>
   m_visibility ex_public = ''PUBLIC'' \<and> m_row_status ex_public = ''NORMAL'' \<and>
   (\<exists>v. get_memos ex_db default_query = [Some v] \<and> shows_row v ex_public) \<and>
   \<not> truthy (q_visibility owner_query) \<and> q_creatorId owner_query = Some 1 \<and>
   m_creator_id ex_private = 1 \<and> m_visibility ex_private = ''PRIVATE'' \<and>
   ex_private \<in> set (ordered_memos ex_db owner_query) \<and>
   select_memos ex_db owner_query = ordered_memos ex_db owner_query \<and>
   select_memos ex_db owner_query = [ex_private, ex_public] \<and>
   m_created_ts ex_private \<ge> m_created_ts ex_public"
proof -
  have q: "\<not> truthy (q_visibility default_query)" "q_creatorId default_query = None"
    "\<not> truthy (q_rowStatus default_query)"
    "\<not> truthy (q_visibility owner_query)" "q_creatorId owner_query = Some 1"
    "\<not> truthy (q_rowStatus owner_query)" "\<not> truthy (q_tag owner_query)"
    "q_rowStatus owner_query = None" "q_offset owner_query = None" "q_limit owner_query = None"
    by (simp_all add: default_query_def owner_query_def truthy_def)
  have fields: "m_creator_id ex_private = 1" "m_row_status ex_private = ''NORMAL''"
    "m_visibility ex_private = ''PRIVATE''"
    by (simp_all add: ex_private_def)
  have a: "(\<forall>m \<in> set (select_memos ex_db default_query). m_visibility m = ''PUBLIC'') \<and>
           (\<forall>m \<in> set (select_memos ex_db default_query). m_row_status m = ''NORMAL'') \<and>
           list_all2 (\<lambda>vo m. \<exists>v. vo = Some v \<and> shows_row v m)
             (get_memos ex_db default_query) (select_memos ex_db default_query)"
    using list_memos_filters[OF ex_db_wf, of default_query 1] q by blast
  have len: "int (length (ordered_memos ex_db owner_query)) \<le> 50"
    by (simp add: ex_lists)
  have st: "m_row_status ex_private = or_else (q_rowStatus owner_query) ''NORMAL''"
    using q fields by (simp add: or_else_def)
  have b: "ex_private \<in> set (ordered_memos ex_db owner_query) \<and>
           select_memos ex_db owner_query = ordered_memos ex_db owner_query \<and>
           sorted_wrt (\<lambda>a b. m_created_ts a \<ge> m_created_ts b) (select_memos ex_db owner_query)"
    using list_memos_filters[OF ex_db_wf, of owner_query 1] q(4,5,7,9,10) fields(1) st
      ex_rows(2) len
    by auto
  have v: "\<exists>v. get_memos ex_db default_query = [Some v] \<and> shows_row v ex_public"
    using a by (auto simp: ex_lists list_all2_Cons2)
  have ts: "m_created_ts ex_private \<ge> m_created_ts ex_public"
    using b by (simp add: ex_lists)
  have pub: "m_visibility ex_public = ''PUBLIC''" "m_row_status ex_public = ''NORMAL''"
    using a by (simp_all add: ex_lists)
  show ?thesis
    using b v ts pub q fields ex_db_wf
    by (simp add: ex_lists)
qed

section \<open>Facts about the soft delete\<close>

lemma first_map: "first (map f xs) = map_option f (first xs)"
  by (cases xs) (simp_all add: first_def)

lemma delete_memo_success:
  assumes "delete_memo e d userPayload memoId = (Inr (), d')"
  obtains up memo where "userPayload = Some up" "select_memo d memoId = Some memo"
    "\<not> write_forbidden d up memo"
    "d' = d\<lparr>tbl_memo := map (\<lambda>m. if m_id m = memoId then archived (clock e) m else m) (tbl_memo d)\<rparr>"
  using assms
  by (auto simp: delete_memo_def update_memo_set_def archived_def split: option.splits if_splits)

lemma join_rows_map:
  assumes "\<And>m. m_id (f m) = m_id m" "\<And>m. m_creator_id (f m) = m_creator_id m"
  shows "[(m, u_username u). m \<leftarrow> map f ms, u \<leftarrow> us, m_creator_id m = u_id u, m_id m = i] =
         map (\<lambda>(m, un). (f m, un))
           [(m, u_username u). m \<leftarrow> ms, u \<leftarrow> us, m_creator_id m = u_id u, m_id m = i]"
  unfolding join_rows
  by (induction ms) (simp_all add: assms comp_def)

lemma select_memo_join_user_map:
  assumes "\<And>m. m_id (f m) = m_id m" "\<And>m. m_creator_id (f m) = m_creator_id m"
  shows "select_memo_join_user (d\<lparr>tbl_memo := map f (tbl_memo d)\<rparr>) i =
         map_option (\<lambda>(m, un). (f m, un)) (select_memo_join_user d i)"
  using join_rows_map[where f = f and ms = "tbl_memo d" and us = "tbl_user d" and i = i, OF assms]
  by (simp add: select_memo_join_user_def first_map)

lemma select_memo_map:
  assumes "\<And>m. m_id (f m) = m_id m"
  shows "select_memo (d\<lparr>tbl_memo := map f (tbl_memo d)\<rparr>) i = map_option f (select_memo d i)"
proof -
  have "filter (\<lambda>m. m_id m = i) (map f (tbl_memo d)) = map f (filter (\<lambda>m. m_id m = i) (tbl_memo d))"
    by (simp add: filter_map comp_def assms)
  then show ?thesis
    by (simp add: select_memo_def first_map)
qed

lemma archive_get_memo:
  assumes "d' = d\<lparr>tbl_memo := map (\<lambda>m. if m_id m = memoId then archived ts m else m) (tbl_memo d)\<rparr>"
    and "get_memo d rq memoId = Inr (Some v)"
  shows "get_memo d' rq memoId = Inr (Some (v\<lparr> v_rowStatus := ''ARCHIVED'', v_updatedTs := ts \<rparr>))"
proof -
  let ?f = "\<lambda>m. if m_id m = memoId then archived ts m else m"
  have keep: "\<And>m. m_id (?f m) = m_id m" "\<And>m. m_creator_id (?f m) = m_creator_id m"
    "\<And>m. m_visibility (?f m) = m_visibility m"
    by (simp_all add: archived_def)
  obtain m un where j: "select_memo_join_user d memoId = Some (m, un)"
    using assms(2) by (cases "select_memo_join_user d memoId") (auto simp: get_memo_def)
  then have mid: "m_id m = memoId"
    using select_memo_join_user_Some by blast
  have j': "select_memo_join_user d' memoId = Some (archived ts m, un)"
    unfolding assms(1) select_memo_join_user_map[of ?f, OF keep(1,2)]
    using j mid by simp
  have users: "getUserIdFromUid d' = getUserIdFromUid d"
    by (rule ext) (simp add: assms(1) getUserIdFromUid_def select_user_by_uid_def)
  have tables: "tbl_resource d' = tbl_resource d" "tbl_memo_resource d' = tbl_memo_resource d"
    "tbl_tag d' = tbl_tag d" "tbl_memo_tag d' = tbl_memo_tag d"
    by (simp_all add: assms(1))
  have view: "getMemoWithDetails d memoId = Some v"
    using assms(2) j by (simp add: get_memo_def split: if_splits)
  have view': "getMemoWithDetails d' memoId =
               Some (v\<lparr> v_rowStatus := ''ARCHIVED'', v_updatedTs := ts \<rparr>)"
    using view j
    by (auto simp: getMemoWithDetails_def j' tables Let_def archived_def resource_view_of_def)
  have "Inr (getMemoWithDetails d memoId) = get_memo d rq memoId"
    using assms(2) view by simp
  then have "\<not> (m_visibility m = ''PRIVATE'' \<and>
             (case rq of None \<Rightarrow> True
              | Some up \<Rightarrow> Some (m_creator_id m) \<noteq> getUserIdFromUid d (sub up)))"
    using j by (auto simp: get_memo_def split: if_splits)
  then show ?thesis
    unfolding get_memo_def j' users view'
    by (simp add: archived_def split: option.splits)
qed

lemma archived_not_listed:
  assumes "d' = d\<lparr>tbl_memo := map (\<lambda>m. if m_id m = memoId then archived ts m else m) (tbl_memo d)\<rparr>"
    and "\<not> truthy (q_rowStatus q)"
  shows "memoId \<notin> m_id ` set (select_memos d' q)"
proof
  assume "memoId \<in> m_id ` set (select_memos d' q)"
  then obtain m where m: "m \<in> set (select_memos d' q)" "m_id m = memoId" by auto
  then have row: "m \<in> set (tbl_memo d')" and wh: "whereClause d' q m"
    using set_select_memos[of d' q] by (auto simp: set_ordered_memos)
  have "or_else (q_rowStatus q) ''NORMAL'' = ''NORMAL''"
    using assms(2) by (simp add: or_else_def truthy_def split: option.splits)
  with wh have normal: "m_row_status m = ''NORMAL''"
    by (simp add: whereClause_def)
  have "m \<in> (\<lambda>m. if m_id m = memoId then archived ts m else m) ` set (tbl_memo d)"
    using row unfolding assms(1) by simp
  then obtain m0 where m0: "m = (if m_id m0 = memoId then archived ts m0 else m0)"
    by (rule imageE)
  have "m_id m0 = memoId"
    using m(2) m0 by (cases "m_id m0 = memoId") (simp_all add: archived_def)
  then have "m_row_status m = ''ARCHIVED''"
    using m0 by (simp add: archived_def)
  with normal show False by simp
qed


lemma archive_again:
  assumes "d' = d\<lparr>tbl_memo := map (\<lambda>m. if m_id m = memoId then archived ts m else m) (tbl_memo d)\<rparr>"
    and "select_memo d memoId = Some memo" and "\<not> write_forbidden d up memo"
  shows "\<exists>d''. delete_memo e2 d' (Some up) memoId = (Inr (), d'') \<and>
               map m_row_status (tbl_memo d'') = map m_row_status (tbl_memo d')"
proof -
  let ?f = "\<lambda>m. if m_id m = memoId then archived ts m else m"
  have keep: "\<And>m. m_id (?f m) = m_id m"
    by (simp add: archived_def)
  have found: "select_memo d' memoId = Some (?f memo)"
    unfolding assms(1) select_memo_map[of ?f, OF keep] using assms(2) by simp
  have users: "getUserIdFromUid d' = getUserIdFromUid d"
    by (rule ext) (simp add: assms(1) getUserIdFromUid_def select_user_by_uid_def)
  have allowed: "\<not> write_forbidden d' up (?f memo)"
    using assms(3) by (simp add: write_forbidden_def users archived_def)
  have run: "delete_memo e2 d' (Some up) memoId =
        (Inr (), update_memo_set d' [SetRowStatus ''ARCHIVED'', SetUpdatedTs (clock e2)] memoId)"
    using found allowed by (simp add: delete_memo_def)
  have "map m_row_status
          (tbl_memo (update_memo_set d' [SetRowStatus ''ARCHIVED'', SetUpdatedTs (clock e2)] memoId)) =
        map m_row_status (tbl_memo d')"
    by (simp add: update_memo_set_def assms(1) archived_def comp_def)
  with run show ?thesis by simp
qed

lemma get_memo_found_private:
  "\<exists>v. get_memo ex_db (Some alice) 2 = Inr (Some v) \<and> shows_row v ex_private"
proof -
  obtain un where "select_memo_join_user ex_db 2 = Some (ex_private, un)"
    using select_memo_join_user_found[OF ex_db_wf ex_rows(2)] ex_rows by auto
  moreover obtain v where "getMemoWithDetails ex_db 2 = Some v" "shows_row v ex_private"
    using getMemoWithDetails_found[OF ex_db_wf ex_rows(2)] ex_rows by auto
  ultimately show ?thesis
    using ex_ids ex_rows by (simp add: get_memo_def)
qed

subsection \<open>C8: delete is a status change\<close>

text \<open>
  C8. A delete that is answered with success leaves the store as it was except for the
  memo table, and there changes only the row of the given id: its status becomes ARCHIVED
  and its updated timestamp the current time. The row stays in the table; the tables of
  resource associations, tags and tag links are the same. A list request without a status
  filter no longer selects the memo. A direct fetch that returned the memo's view before
  returns it afterwards with status ARCHIVED (and the new updated timestamp). A second
  delete by the same requester succeeds again and changes no status: the memo stays
  ARCHIVED.
\<close>

theorem delete_memo_archives:
  assumes "delete_memo e d userPayload memoId = (Inr (), d')"
  shows "d' = d\<lparr>tbl_memo :=
                  map (\<lambda>m. if m_id m = memoId
                            then m\<lparr> m_row_status := ''ARCHIVED'', m_updated_ts := clock e \<rparr>
                            else m) (tbl_memo d)\<rparr> \<and>
         length (tbl_memo d') = length (tbl_memo d) \<and>
         (\<exists>m \<in> set (tbl_memo d'). m_id m = memoId \<and> m_row_status m = ''ARCHIVED'') \<and>
         tbl_memo_resource d' = tbl_memo_resource d \<and>
         tbl_tag d' = tbl_tag d \<and> tbl_memo_tag d' = tbl_memo_tag d \<and>
         (\<not> truthy (q_rowStatus q) \<longrightarrow> memoId \<notin> m_id ` set (select_memos d' q)) \<and>
         (get_memo d rq memoId = Inr (Some v) \<longrightarrow>
            get_memo d' rq memoId =
              Inr (Some (v\<lparr> v_rowStatus := ''ARCHIVED'', v_updatedTs := clock e \<rparr>))) \<and>
         (\<exists>d''. delete_memo e2 d' userPayload memoId = (Inr (), d'') \<and>
                map m_row_status (tbl_memo d'') = map m_row_status (tbl_memo d'))"
proof -
  from assms obtain up memo where up: "userPayload = Some up"
    and found: "select_memo d memoId = Some memo"
    and allowed: "\<not> write_forbidden d up memo"
    and d': "d' = d\<lparr>tbl_memo := map (\<lambda>m. if m_id m = memoId then archived (clock e) m else m)
                                    (tbl_memo d)\<rparr>"
    by (rule delete_memo_success)
  have memo: "memo \<in> set (tbl_memo d)" "m_id memo = memoId"
    using found by (auto simp: select_memo_def dest!: first_Some_mem)
  have state: "d' = d\<lparr>tbl_memo :=
                  map (\<lambda>m. if m_id m = memoId
                            then m\<lparr> m_row_status := ''ARCHIVED'', m_updated_ts := clock e \<rparr>
                            else m) (tbl_memo d)\<rparr>"
    using d' by (simp add: archived_def)
  have "archived (clock e) memo \<in> set (tbl_memo d')"
    unfolding d' using memo by (auto simp: image_iff intro!: bexI[of _ memo])
  then have kept: "\<exists>m \<in> set (tbl_memo d'). m_id m = memoId \<and> m_row_status m = ''ARCHIVED''"
    using memo(2) by (auto simp: archived_def intro!: bexI[of _ "archived (clock e) memo"])
  have frame: "length (tbl_memo d') = length (tbl_memo d)"
    "tbl_memo_resource d' = tbl_memo_resource d" "tbl_tag d' = tbl_tag d"
    "tbl_memo_tag d' = tbl_memo_tag d"
    by (simp_all add: d')
  have listed: "\<not> truthy (q_rowStatus q) \<longrightarrow> memoId \<notin> m_id ` set (select_memos d' q)"
    using archived_not_listed[OF d'] by blast
  have fetch: "get_memo d rq memoId = Inr (Some v) \<longrightarrow>
            get_memo d' rq memoId =
              Inr (Some (v\<lparr> v_rowStatus := ''ARCHIVED'', v_updatedTs := clock e \<rparr>))"
    using archive_get_memo[OF d'] by blast
  have again: "\<exists>d''. delete_memo e2 d' userPayload memoId = (Inr (), d'') \<and>
                map m_row_status (tbl_memo d'') = map m_row_status (tbl_memo d')"
    unfolding up using archive_again[OF d' found allowed] by blast
  from state kept frame listed fetch again show ?thesis by blast
qed

text \<open>
  C8 on the example store: alice deletes her memo 2 at time 5000; the list of her memos
  had it and has it no more, her direct fetch returns it as ARCHIVED, the association with
  resource 7 is still there, and a second delete succeeds.
\<close>

theorem delete_memo_archives_witness:
  "delete_memo ex_env ex_db (Some alice) 2 = (Inr (), ex_db_deleted) \<and>
   tbl_memo ex_db_deleted =
     [ex_public, ex_private\<lparr> m_row_status := ''ARCHIVED'', m_updated_ts := 5000 \<rparr>] \<and>
   tbl_memo_resource ex_db_deleted = [\<lparr>mr_memo_id = 2, mr_resource_id = 7\<rparr>] \<and>
   \<not> truthy (q_rowStatus owner_query) \<and>
   2 \<in> m_id ` set (select_memos ex_db owner_query) \<and>
   2 \<notin> m_id ` set (select_memos ex_db_deleted owner_query) \<and>
   (\<exists>v. get_memo ex_db (Some alice) 2 = Inr (Some v) \<and> v_rowStatus v = ''NORMAL'' \<and>
        get_memo ex_db_deleted (Some alice) 2 =
          Inr (Some (v\<lparr> v_rowStatus := ''ARCHIVED'', v_updatedTs := 5000 \<rparr>))) \<and>
   fst (delete_memo ex_env ex_db_deleted (Some alice) 2) = Inr ()"
proof -
  have run: "delete_memo ex_env ex_db (Some alice) 2 = (Inr (), ex_db_deleted)"
    using ex_select(1,2) by (simp add: delete_memo_def ex_db_deleted_def)
  obtain v where v: "get_memo ex_db (Some alice) 2 = Inr (Some v)" "shows_row v ex_private"
    using get_memo_found_private by blast
  have q: "\<not> truthy (q_rowStatus owner_query)"
    by (simp add: owner_query_def truthy_def)
  have before: "2 \<in> m_id ` set (select_memos ex_db owner_query)"
    using ex_rows by (simp add: ex_lists)
  have clock: "clock ex_env = 5000"
    by (simp add: ex_env_def)
  have status: "v_rowStatus v = ''NORMAL''"
    using v(2) by (simp add: shows_row_def ex_private_def)
  note inst = delete_memo_archives[OF run, of owner_query "Some alice" v ex_env]
  have state: "ex_db_deleted = ex_db\<lparr>tbl_memo :=
                  map (\<lambda>m. if m_id m = 2
                            then m\<lparr> m_row_status := ''ARCHIVED'', m_updated_ts := clock ex_env \<rparr>
                            else m) (tbl_memo ex_db)\<rparr>"
    using inst by blast
  have rows: "tbl_memo ex_db_deleted =
     [ex_public, ex_private\<lparr> m_row_status := ''ARCHIVED'', m_updated_ts := 5000 \<rparr>]"
    unfolding state using ex_rows by (simp add: ex_tbl_memo clock)
  have links: "tbl_memo_resource ex_db_deleted = [\<lparr>mr_memo_id = 2, mr_resource_id = 7\<rparr>]"
    using inst ex_select(5) by simp
  have after: "2 \<notin> m_id ` set (select_memos ex_db_deleted owner_query)"
    using inst q by blast
  have fetch: "get_memo ex_db_deleted (Some alice) 2 =
          Inr (Some (v\<lparr> v_rowStatus := ''ARCHIVED'', v_updatedTs := 5000 \<rparr>))"
    using inst v(1) clock by simp
  have again: "fst (delete_memo ex_env ex_db_deleted (Some alice) 2) = Inr ()"
    using inst by auto
  from run rows links q before after v(1) status fetch again show ?thesis
    by blast
qed

section \<open>Facts about the statistics\<close>






subsection \<open>C9: the statistics\<close>




section \<open>The mutations keep the store's integrity\<close>

lemma wf_store_map:
  assumes "wf_store d" and "tbl_user d' = tbl_user d" and "tbl_memo d' = map f (tbl_memo d)"
    and "\<And>m. m_id (f m) = m_id m" and "\<And>m. m_creator_id (f m) = m_creator_id m"
  shows "wf_store d'"
proof -
  have ids: "map m_id (tbl_memo d') = map m_id (tbl_memo d)"
    by (simp add: assms(3,4) comp_def)
  have "distinct (map m_id (tbl_memo d'))"
    unfolding ids using assms(1) by (simp add: wf_store_def)
  moreover have "list_all (\<lambda>m. m_creator_id m \<in> set (map u_id (tbl_user d'))) (tbl_memo d')"
    using assms(1) by (simp add: wf_store_def assms(2,3,5) list_all_iff)
  ultimately show ?thesis
    by (simp add: wf_store_def)
qed

lemma fold_assign_keeps:
  "m_id (fold assign us m) = m_id m" "m_creator_id (fold assign us m) = m_creator_id m"
proof -
  have "m_id (fold assign us m) = m_id m \<and> m_creator_id (fold assign us m) = m_creator_id m"
  proof (induction us arbitrary: m)
    case Nil
    then show ?case by simp
  next
    case (Cons u us)
    then show ?case by (cases u) simp_all
  qed
  then show "m_id (fold assign us m) = m_id m" "m_creator_id (fold assign us m) = m_creator_id m"
    by simp_all
qed

lemma wf_store_update_memo_set: "wf_store d \<Longrightarrow> wf_store (update_memo_set d us i)"
  by (rule wf_store_map[where f = "\<lambda>m. if m_id m = i then fold assign us m else m"])
    (simp_all add: update_memo_set_def fold_assign_keeps)

lemma wf_store_tables:
  "wf_store d \<Longrightarrow> tbl_memo d' = tbl_memo d \<Longrightarrow> tbl_user d' = tbl_user d \<Longrightarrow> wf_store d'"
  by (simp add: wf_store_def)

lemma last_row_id_fresh: "m \<in> set rows \<Longrightarrow> m_id m < last_row_id rows"
proof -
  assume "m \<in> set rows"
  then have "m_id m \<in> set (0 # map m_id rows)" by simp
  then have "m_id m \<le> Max (set (0 # map m_id rows))" by (intro Max_ge) simp_all
  moreover have "fold max (map m_id rows) 0 = Max (set (0 # map m_id rows))"
    by (rule Max.set_eq_fold[symmetric])
  ultimately show ?thesis
    unfolding last_row_id_def by linarith
qed

lemma delete_memo_wf: "wf_store d \<Longrightarrow> wf_store (snd (delete_memo e d userPayload memoId))"
  by (simp add: delete_memo_def wf_store_update_memo_set split: option.splits)

lemma patch_memo_wf:
  assumes "wf_store d"
  shows "wf_store (snd (patch_memo e d userPayload memoId body))"
proof (cases "\<exists>v. fst (patch_memo e d userPayload memoId body) = Inr v")
  case True
  then obtain v where ok: "fst (patch_memo e d userPayload memoId body) = Inr v" by blast
  then obtain up memo where up: "userPayload = Some up"
    and found: "select_memo d memoId = Some memo" and allowed: "\<not> write_forbidden d up memo"
    by (rule patch_memo_success)
  let ?d1 = "if b_content body \<noteq> None \<or> b_visibility body \<noteq> None
                   then update_memo_set d
                          ((case b_content body of None \<Rightarrow> [] | Some x \<Rightarrow> [SetContent x]) @
                           (case b_visibility body of None \<Rightarrow> [] | Some x \<Rightarrow> [SetVisibility x]) @
                           [SetUpdatedTs (clock e)]) memoId
                   else d"
  have "wf_store ?d1"
    using assms by (simp add: wf_store_update_memo_set)
  moreover have "tbl_memo (snd (patch_memo e d userPayload memoId body)) = tbl_memo ?d1"
    unfolding up by (rule patch_memo_tbl_memo[OF found allowed])
  moreover have "tbl_user (snd (patch_memo e d userPayload memoId body)) = tbl_user ?d1"
    unfolding up using found allowed
    by (simp add: patch_memo_def Let_def insert_memo_resources_frame run_updateMemoTags_frame
        delete_memo_resources_frame update_memo_set_frame split: option.splits)
  ultimately show ?thesis
    by (rule wf_store_tables)
next
  case False
  then have "snd (patch_memo e d userPayload memoId body) = d"
    by (auto simp: patch_memo_def Let_def split: option.splits if_splits)
  with assms show ?thesis by simp
qed

lemma post_memo_wf:
  assumes "wf_store d"
  shows "wf_store (snd (post_memo e d userPayload body))"
proof (cases "\<exists>v. fst (post_memo e d userPayload body) = Inr v")
  case True
  then obtain up c user where up: "userPayload = Some up" and c: "b_content body = Some c" "c \<noteq> []"
    and user: "select_user_by_uid d (sub up) = Some user" and ins: "insert_success e"
    by (auto simp: post_memo_def Let_def split: option.splits if_splits)
  define row where "row =
      \<lparr> m_id = last_row_id (tbl_memo d), m_uid = uuidv4 e, m_creator_id = u_id user,
        m_content = c,
        m_visibility = (case b_visibility body of None \<Rightarrow> ''PRIVATE'' | Some v \<Rightarrow> v),
        m_row_status = ''NORMAL'', m_created_ts = clock e, m_updated_ts = clock e \<rparr>"
  have row: "m_id row = last_row_id (tbl_memo d)" "m_creator_id row = u_id user"
    by (simp_all add: row_def)
  have tables: "tbl_memo (snd (post_memo e d userPayload body)) = tbl_memo d @ [row]"
      "tbl_user (snd (post_memo e d userPayload body)) = tbl_user d"
    using up c user ins
    by (simp_all add: post_memo_def Let_def insert_memo_resources_frame run_updateMemoTags_frame
        row_def)
  have "user \<in> set (tbl_user d)"
    using user by (auto simp: select_user_by_uid_def dest!: first_Some_mem)
  moreover have "last_row_id (tbl_memo d) \<notin> m_id ` set (tbl_memo d)"
    using last_row_id_fresh[of _ "tbl_memo d"] by fastforce
  ultimately show ?thesis
    using assms by (simp add: wf_store_def tables row list_all_iff)
next
  case False
  then have "snd (post_memo e d userPayload body) = d"
    by (auto simp: post_memo_def Let_def split: option.splits if_splits)
  with assms show ?thesis by simp
qed

end
